theory Spec2Isabelle
  imports Main "HOL-Library.Word" "HOL-Library.Finite_Map" "HOL-Library.Sublist"
begin

section \<open>Go values used by the plugin\<close>

text \<open>
  A Go \<^verbatim>\<open>string\<close> is a sequence of bytes, and \<^verbatim>\<open>len(s)\<close> is the number of
  bytes. A \<^typ>\<open>string\<close> of HOL is a list of 8-bit characters, so \<^term>\<open>length s\<close>
  is \<^verbatim>\<open>len(s)\<close>.

  A Go \<^verbatim>\<open>error\<close> is used by this program only through its message
  (\<^verbatim>\<open>%v\<close>, \<^verbatim>\<open>%w\<close> and \<^verbatim>\<open>err.Error()\<close>), so an error is the message it carries.
  A function returning \<^verbatim>\<open>error\<close> returns \<^typ>\<open>'a option\<close> with \<^term>\<open>None\<close>
  for \<^verbatim>\<open>nil\<close>.
\<close>

datatype error = Errorf (Error: string)

text \<open>
  A Go map is a finite map or \<^verbatim>\<open>nil\<close>. Reading a \<^verbatim>\<open>nil\<close> map finds no key and
  its \<^verbatim>\<open>len\<close> is 0, but \<^verbatim>\<open>m == nil\<close> tells it from an empty map.
\<close>

type_synonym ('k, 'v) gomap = "('k, 'v) fmap option"

definition go_lookup :: "('k, 'v) gomap \<Rightarrow> 'k \<Rightarrow> 'v option" where
  "go_lookup m k = (case m of None \<Rightarrow> None | Some f \<Rightarrow> fmlookup f k)"

definition go_len :: "('k, 'v) gomap \<Rightarrow> nat" where
  "go_len m = (case m of None \<Rightarrow> 0 | Some f \<Rightarrow> fcard (fmdom f))"

text \<open>What \<^verbatim>\<open>yaml.v3\<close> decodes into a Go \<^verbatim>\<open>any\<close>.\<close>

datatype any =
    AnyNil
  | AnyBool bool
  | AnyInt int
  | AnyString string
  | AnySeq "any list"
  | AnyMap "(string \<times> any) list"

text \<open>\<^verbatim>\<open>strconv.Itoa\<close> and the verb \<^verbatim>\<open>%d\<close>: the decimal digits of an integer.\<close>

fun digits10 :: "nat \<Rightarrow> string" where
  "digits10 n =
     (if n < 10 then [char_of (48 + n)]
      else digits10 (n div 10) @ [char_of (48 + n mod 10)])"

declare digits10.simps [simp del]

definition Itoa :: "int \<Rightarrow> string" where
  "Itoa i = (if i < 0 then CHR ''-'' # digits10 (nat (- i)) else digits10 (nat i))"

section \<open>The manifest model (pubspec.go)\<close>

record Pubspec =
  Name :: string
  Version :: string
  Description :: string
  Homepage :: string
  Repository :: string
  Environment :: "(string, string) gomap"
  Dependencies :: "(string, any) gomap"
  DevDeps :: "(string, any) gomap"
  Flutter :: "(string, any) gomap"

text \<open>
  \<^verbatim>\<open>ValidatePubspec\<close>: seven \<^verbatim>\<open>if ... return fmt.Errorf(...)\<close> statements in a row, and
  \<^verbatim>\<open>return nil\<close> at the end.
\<close>

definition ValidatePubspec :: "Pubspec \<Rightarrow> error option" where
  "ValidatePubspec pubspec =
     (if Name pubspec = [] then Some (Errorf ''package name is required'')
      else if Version pubspec = [] then Some (Errorf ''version is required'')
      else if Description pubspec = [] then Some (Errorf ''description is required for pub.dev'')
      else if length (Description pubspec) < 60 then
        Some (Errorf (''description should be at least 60 characters (currently ''
                       @ Itoa (int (length (Description pubspec))) @ '')''))
      else if 180 < length (Description pubspec) then
        Some (Errorf (''description should be at most 180 characters (currently ''
                       @ Itoa (int (length (Description pubspec))) @ '')''))
      else if Environment pubspec = None then Some (Errorf ''environment section is required'')
      else (case go_lookup (Environment pubspec) ''sdk'' of
              None \<Rightarrow> Some (Errorf ''SDK constraint is required in environment section'')
            | Some sdk \<Rightarrow>
                if sdk = [] then Some (Errorf ''SDK constraint is required in environment section'')
                else None))"

text \<open>\<^verbatim>\<open>IsFlutterPackage\<close>.\<close>

definition IsFlutterPackage :: "Pubspec \<Rightarrow> bool" where
  "IsFlutterPackage pubspec =
     (if go_lookup (Dependencies pubspec) ''flutter'' \<noteq> None then True
      else if 0 < go_len (Flutter pubspec) then True
      else False)"

section \<open>Credentials (credentials.go)\<close>

text \<open>
  \<^verbatim>\<open>Expiration\<close> is an \<^verbatim>\<open>int64\<close>, and so is \<^verbatim>\<open>time.Now().Unix()\<close>; the comparison
  \<^verbatim>\<open>>\<close> of the source is the signed one. The clock is read once per call and is an
  argument of the model.
\<close>

record PubCredentials =
  AccessToken :: string
  RefreshToken :: string
  TokenEndpoint :: string
  Expiration :: "64 word"

definition CreateCredentialsFromToken :: "string \<Rightarrow> PubCredentials" where
  "CreateCredentialsFromToken token =
     \<lparr>AccessToken = token, RefreshToken = [], TokenEndpoint = [], Expiration = 0\<rparr>"

definition IsExpired :: "64 word \<Rightarrow> PubCredentials \<Rightarrow> bool" where
  "IsExpired now c = (if Expiration c = 0 then False else Expiration c <s now)"

definition IsValid :: "64 word \<Rightarrow> PubCredentials \<Rightarrow> bool" where
  "IsValid now c = (if AccessToken c = [] then False else \<not> IsExpired now c)"


section \<open>The regular-expression library, as far as \<^verbatim>\<open>UpdateVersion\<close> uses it\<close>

text \<open>
  \<^verbatim>\<open>UpdateVersion\<close> compiles \<^verbatim>\<open>(?m)^version:\s*.+$\<close> with Go's \<^verbatim>\<open>regexp\<close> package.
  The pattern is a sequence of instructions:
  \<^item> \<^verbatim>\<open>^\<close> under \<^verbatim>\<open>(?m)\<close>: at the beginning of the text or right after a line feed;
  \<^item> \<^verbatim>\<open>$\<close> under \<^verbatim>\<open>(?m)\<close>: at the end of the text or right before a line feed;
  \<^item> a literal byte;
  \<^item> \<^verbatim>\<open>\s\<close>: one of tab, line feed, form feed, carriage return, space (the line feed is
    a member of the class);
  \<^item> \<^verbatim>\<open>.\<close> without the flag \<^verbatim>\<open>s\<close>: anything but a line feed;
  \<^item> \<^verbatim>\<open>*\<close> and \<^verbatim>\<open>+\<close>: greedy repetition of a class.

  The package returns the leftmost match, and among the matches that begin there the one a
  backtracking search finds first: \<open>rx_match\<close> is that search at one position (the
  argument \<open>prev\<close> is the byte before the position, \<^term>\<open>None\<close> at the beginning
  of the text), and \<open>rx_find\<close> tries the positions from left to right.

  The library decodes UTF-8 and a class consumes a whole code point; \<^verbatim>\<open>\s\<close> holds ASCII
  only, and \<^verbatim>\<open>.+$\<close> runs to the end of the line in either reading, so the matches of
  this pattern are the same byte ranges.
\<close>

datatype charclass = PerlSpace | AnyCharNotNL

fun in_class :: "charclass \<Rightarrow> char \<Rightarrow> bool" where
  "in_class PerlSpace c =
     (c = CHR 0x09 \<or> c = CHR 0x0A \<or> c = CHR 0x0C \<or> c = CHR 0x0D \<or> c = CHR '' '')"
| "in_class AnyCharNotNL c = (c \<noteq> CHR 0x0A)"

datatype inst = BeginLine | EndLine | Char char | Star charclass | Plus charclass

type_synonym regexp = "inst list"

fun rx_match :: "regexp \<Rightarrow> char option \<Rightarrow> string \<Rightarrow> string option" where
  "rx_match [] prev s = Some []"
| "rx_match (BeginLine # rs) prev s =
     (if prev = None \<or> prev = Some (CHR 0x0A) then rx_match rs prev s else None)"
| "rx_match (EndLine # rs) prev s =
     (if s = [] \<or> hd s = CHR 0x0A then rx_match rs prev s else None)"
| "rx_match (Char c # rs) prev [] = None"
| "rx_match (Char c # rs) prev (x # xs) =
     (if x = c then map_option ((#) x) (rx_match rs (Some x) xs) else None)"
| "rx_match (Star cc # rs) prev [] = rx_match rs prev []"
| "rx_match (Star cc # rs) prev (x # xs) =
     (if in_class cc x then
        (case rx_match (Star cc # rs) (Some x) xs of
           Some m \<Rightarrow> Some (x # m)
         | None \<Rightarrow> rx_match rs prev (x # xs))
      else rx_match rs prev (x # xs))"
| "rx_match (Plus cc # rs) prev [] = None"
| "rx_match (Plus cc # rs) prev (x # xs) =
     (if in_class cc x then map_option ((#) x) (rx_match (Star cc # rs) (Some x) xs) else None)"

text \<open>
  The first match at or after the current position: the text skipped, the match, the
  text after the match.
\<close>

fun rx_find :: "regexp \<Rightarrow> char option \<Rightarrow> string \<Rightarrow> (string \<times> string \<times> string) option" where
  "rx_find rs prev [] = map_option (\<lambda>m. ([], m, [])) (rx_match rs prev [])"
| "rx_find rs prev (x # xs) =
     (case rx_match rs prev (x # xs) of
        Some m \<Rightarrow> Some ([], m, drop (length m) (x # xs))
      | None \<Rightarrow> map_option (\<lambda>(p, m, r). (x # p, m, r)) (rx_find rs (Some x) xs))"

definition version_pattern :: regexp where
  "version_pattern =
     BeginLine # map Char ''version:'' @ [Star PerlSpace, Plus AnyCharNotNL, EndLine]"

definition Match :: "regexp \<Rightarrow> string \<Rightarrow> bool" where
  "Match rs b = (rx_find rs None b \<noteq> None)"

lemma rx_match_prefix: "rx_match rs prev s = Some m \<Longrightarrow> take (length m) s = m"
  by (induction rs prev s arbitrary: m rule: rx_match.induct)
     (auto split: if_splits option.splits)

lemma rx_find_decomp: "rx_find rs prev s = Some (p, m, r) \<Longrightarrow> s = p @ m @ r"
proof (induction rs prev s arbitrary: p rule: rx_find.induct)
  case (1 rs prev)
  then show ?case by (auto dest: rx_match_prefix)
next
  case (2 rs prev x xs)
  show ?case
  proof (cases "rx_match rs prev (x # xs)")
    case None
    with 2 show ?thesis by auto
  next
    case (Some m')
    with 2 have "m' = m" "p = []" "r = drop (length m) (x # xs)" by auto
    moreover from Some have "take (length m') (x # xs) = m'" by (rule rx_match_prefix)
    ultimately show ?thesis by (metis append_Nil append_take_drop_id)
  qed
qed

text \<open>
  The loop of \<^verbatim>\<open>Regexp.replaceAll\<close>: find the next match from the end of the last one, copy
  the text before it, append what \<open>repl\<close> makes of the match, go on after the match; copy
  the rest when no match is left. After a match of the empty string the library steps over
  one UTF-8 sequence before it searches again; that branch is not modelled further (the
  model stops there), and \<open>version_pattern\<close> never takes it, since each of its matches
  begins with \<^verbatim>\<open>version:\<close>.
\<close>

function replaceAll :: "regexp \<Rightarrow> (string \<Rightarrow> string) \<Rightarrow> char option \<Rightarrow> string \<Rightarrow> string" where
  "replaceAll rs repl prev s =
     (case rx_find rs prev s of
        None \<Rightarrow> s
      | Some (p, m, r) \<Rightarrow>
          if m = [] then p @ repl m @ r
          else p @ repl m @ replaceAll rs repl (Some (last m)) r)"
  by pat_completeness auto
termination
proof (relation "measure (\<lambda>(rs, repl, prev, s). length s)")
  show "wf (measure (\<lambda>(rs, repl, prev, s). length s))" by simp
next
  fix rs :: regexp and repl :: "string \<Rightarrow> string" and prev s x2 p y m r
  assume "rx_find rs prev s = Some x2" "(p, y) = x2" "(m, r) = y" "m \<noteq> []"
  then have "s = p @ m @ r" by (auto dest: rx_find_decomp)
  with \<open>m \<noteq> []\<close>
  show "((rs, repl, Some (last m), r), (rs, repl, prev, s))
          \<in> measure (\<lambda>(rs, repl, prev, s). length s)"
    by simp
qed

declare replaceAll.simps [simp del]

text \<open>
  \<^verbatim>\<open>Regexp.expand\<close>: the replacement is a template. \<^verbatim>\<open>$$\<close> is a dollar sign; \<^verbatim>\<open>$name\<close> and
  \<^verbatim>\<open>${name}\<close> refer to a group, where the name is the longest run of letters, digits and
  underscores; a dollar sign followed by no name stays as it is. \<open>version_pattern\<close> has
  no group of its own, so \<^verbatim>\<open>$0\<close> is the match and every other reference is empty.

  The name is read with \<^verbatim>\<open>unicode.IsLetter\<close> and \<^verbatim>\<open>unicode.IsDigit\<close>. For ASCII they
  are written out here; for a byte from 128 on, the argument \<open>uni\<close> says how many bytes
  the code point at the head of the text takes when it is a letter or a digit, and 0 when
  it is neither.
\<close>

definition ascii_name_char :: "char \<Rightarrow> bool" where
  "ascii_name_char c =
     (let n = (of_char c :: nat)
      in 97 \<le> n \<and> n \<le> 122 \<or> 65 \<le> n \<and> n \<le> 90 \<or> 48 \<le> n \<and> n \<le> 57 \<or> n = 95)"

definition name_rune_size :: "(string \<Rightarrow> nat) \<Rightarrow> string \<Rightarrow> nat" where
  "name_rune_size uni s =
     (case s of
        [] \<Rightarrow> 0
      | c # _ \<Rightarrow>
          if (of_char c :: nat) < 128 then (if ascii_name_char c then 1 else 0)
          else uni s)"

function name_len :: "(string \<Rightarrow> nat) \<Rightarrow> string \<Rightarrow> nat" where
  "name_len uni s =
     (if name_rune_size uni s = 0 \<or> length s < name_rune_size uni s then 0
      else name_rune_size uni s + name_len uni (drop (name_rune_size uni s) s))"
  by pat_completeness auto
termination
  by (relation "measure (\<lambda>(uni, s). length s)") auto

declare name_len.simps [simp del]

fun number_loop :: "string \<Rightarrow> int \<Rightarrow> int" where
  "number_loop [] num = num"
| "number_loop (c # cs) num =
     (if (of_char c :: nat) < 48 \<or> 57 < (of_char c :: nat) \<or> 100000000 \<le> num then - 1
      else number_loop cs (num * 10 + int (of_char c) - 48))"

text \<open>
  \<^verbatim>\<open>extract\<close> of the library (the dollar sign is already removed): the name, its number
  (\<open>-1\<close> when it is not one) and how many bytes of the template the reference takes.
\<close>

definition extract_name :: "(string \<Rightarrow> nat) \<Rightarrow> string \<Rightarrow> (string \<times> int \<times> nat) option" where
  "extract_name uni str =
     (if str = [] then None
      else
        let brace = (hd str = CHR ''{'');
            body = (if brace then tl str else str);
            i = name_len uni body;
            name = take i body
        in if i = 0 then None
           else if brace \<and> (length body \<le> i \<or> body ! i \<noteq> CHR ''}'') then None
           else Some (name,
                      (if hd name = CHR ''0'' \<and> 1 < length name then - 1 else number_loop name 0),
                      (if brace then i + 2 else i)))"

fun expand :: "(string \<Rightarrow> nat) \<Rightarrow> string \<Rightarrow> string \<Rightarrow> string" where
  "expand uni [] m = []"
| "expand uni (c # t) m =
     (if c \<noteq> CHR ''$'' then c # expand uni t m
      else if t \<noteq> [] \<and> hd t = CHR ''$'' then CHR ''$'' # expand uni (tl t) m
      else (case extract_name uni t of
              None \<Rightarrow> CHR ''$'' # expand uni t m
            | Some (name, num, k) \<Rightarrow> (if num = 0 then m else []) @ expand uni (drop k t) m))"

definition ReplaceAll :: "(string \<Rightarrow> nat) \<Rightarrow> regexp \<Rightarrow> string \<Rightarrow> string \<Rightarrow> string" where
  "ReplaceAll uni rs src repl = replaceAll rs (expand uni repl) None src"

section \<open>The world outside the plugin\<close>

text \<open>
  What the operating system and the libraries outside this repository answer is a
  parameter of the model: the YAML and JSON decoders, the home directory, path joining,
  \<^verbatim>\<open>strings.TrimSpace\<close>, the outcome of an external process (its standard error and the
  error of \<^verbatim>\<open>cmd.Run\<close>), which paths cannot be written, and the Unicode tables behind
  \<open>expand\<close>.
\<close>

record command =
  cmd_name :: string
  cmd_args :: "string list"
  cmd_dir :: string
  cmd_env :: "string list"

record host =
  yaml_Unmarshal :: "string \<Rightarrow> error + Pubspec"
  json_Unmarshal :: "string \<Rightarrow> error + PubCredentials"
  UserHomeDir :: "error + string"
  filepath_Join :: "string list \<Rightarrow> string"
  TrimSpace :: "string \<Rightarrow> string"
  cmd_Run :: "command \<Rightarrow> string \<times> error option"
  write_denied :: "string \<Rightarrow> bool"
  unicode_name_rune :: "string \<Rightarrow> nat"

text \<open>
  The state the plugin changes: the files (path to content), the external processes it has
  started, in order, and the lines it has logged (the message of each \<^verbatim>\<open>logger.Info\<close>,
  without the attributes). An external process is a black box that ends with an error or
  without one; it is taken to leave the files of the model as they are.

  \<^verbatim>\<open>os.ReadFile\<close> fails on a path that has no file. \<^verbatim>\<open>os.WriteFile\<close> fails on a path
  that cannot be opened for writing, before anything is changed; a write that fails midway
  is not modelled.
\<close>

type_synonym filesystem = "string \<rightharpoonup> string"

record world =
  files :: filesystem
  executed :: "command list"
  logged :: "string list"

definition Info :: "string \<Rightarrow> world \<Rightarrow> world" where
  "Info msg w = w\<lparr>logged := logged w @ [msg]\<rparr>"

definition ReadFile :: "filesystem \<Rightarrow> string \<Rightarrow> error + string" where
  "ReadFile fs path =
     (case fs path of
        None \<Rightarrow> Inl (Errorf (''open '' @ path @ '': no such file or directory''))
      | Some data \<Rightarrow> Inr data)"

definition WriteFile :: "host \<Rightarrow> string \<Rightarrow> string \<Rightarrow> filesystem \<Rightarrow> error option \<times> filesystem" where
  "WriteFile h path data fs =
     (if write_denied h path then (Some (Errorf (''open '' @ path @ '': permission denied'')), fs)
      else (None, fs(path \<mapsto> data)))"

section \<open>Reading and rewriting the manifest (pubspec.go)\<close>

definition ParsePubspec :: "host \<Rightarrow> filesystem \<Rightarrow> string \<Rightarrow> error + Pubspec" where
  "ParsePubspec h fs path =
     (case ReadFile fs path of
        Inl err \<Rightarrow> Inl (Errorf (''failed to read pubspec.yaml: '' @ Error err))
      | Inr data \<Rightarrow>
          (case yaml_Unmarshal h data of
             Inl err \<Rightarrow> Inl (Errorf (''failed to parse pubspec.yaml: '' @ Error err))
           | Inr pubspec \<Rightarrow> Inr pubspec))"

definition UpdateVersion :: "host \<Rightarrow> string \<Rightarrow> string \<Rightarrow> filesystem \<Rightarrow> error option \<times> filesystem" where
  "UpdateVersion h path version fs =
     (case ReadFile fs path of
        Inl err \<Rightarrow> (Some (Errorf (''failed to read pubspec.yaml: '' @ Error err)), fs)
      | Inr data \<Rightarrow>
          if \<not> Match version_pattern data then
            (Some (Errorf ''version field not found in pubspec.yaml''), fs)
          else
            let newData = ReplaceAll (unicode_name_rune h) version_pattern data
                            (''version: '' @ version)
            in (case WriteFile h path newData fs of
                  (Some err, fs') \<Rightarrow>
                    (Some (Errorf (''failed to write pubspec.yaml: '' @ Error err)), fs')
                | (None, fs') \<Rightarrow> (None, fs')))"


section \<open>Loading credentials (credentials.go)\<close>

definition LoadCredentials :: "host \<Rightarrow> filesystem \<Rightarrow> string \<Rightarrow> error + PubCredentials" where
  "LoadCredentials h fs path =
     (case (if path = [] then
              (case UserHomeDir h of
                 Inl err \<Rightarrow> Inl (Errorf (''failed to get home directory: '' @ Error err))
               | Inr home \<Rightarrow> Inr (filepath_Join h [home, ''.pub-cache'', ''credentials.json'']))
            else Inr path) of
        Inl err \<Rightarrow> Inl err
      | Inr path' \<Rightarrow>
          (case ReadFile fs path' of
             Inl err \<Rightarrow> Inl (Errorf (''failed to read credentials: '' @ Error err))
           | Inr data \<Rightarrow>
               (case json_Unmarshal h data of
                  Inl err \<Rightarrow> Inl (Errorf (''failed to parse credentials: '' @ Error err))
                | Inr creds \<Rightarrow> Inr creds)))"

section \<open>The command-line wrapper (dart.go)\<close>

record TestConfig =
  platform :: string
  concurrency :: int
  coverage :: bool

record DartCLI =
  workDir :: string
  credentials :: "PubCredentials option"
  hostedURL :: string

definition NewDartCLI :: "string \<Rightarrow> DartCLI" where
  "NewDartCLI dir = \<lparr>workDir = dir, credentials = None, hostedURL = []\<rparr>"

definition SetCredentials :: "DartCLI \<Rightarrow> PubCredentials option \<Rightarrow> DartCLI" where
  "SetCredentials d creds = d\<lparr>credentials := creds\<rparr>"

definition SetHostedURL :: "DartCLI \<Rightarrow> string \<Rightarrow> DartCLI" where
  "SetHostedURL d url = d\<lparr>hostedURL := url\<rparr>"

text \<open>
  What \<^verbatim>\<open>run\<close> and \<^verbatim>\<open>Publish\<close> both do with a command once it is built: start it
  (it joins the processes the world has seen), and on failure put the trimmed standard
  error before the error when there is any.
\<close>

definition cmd_error :: "host \<Rightarrow> command \<Rightarrow> error option" where
  "cmd_error h cmd =
     (case cmd_Run h cmd of
        (stderr, Some err) \<Rightarrow>
          (let errOutput = TrimSpace h stderr
           in if errOutput \<noteq> [] then Some (Errorf (errOutput @ '': '' @ Error err))
              else Some err)
      | (stderr, None) \<Rightarrow> None)"

definition start :: "host \<Rightarrow> command \<Rightarrow> world \<Rightarrow> error option \<times> world" where
  "start h cmd w = (cmd_error h cmd, w\<lparr>executed := executed w @ [cmd]\<rparr>)"

definition run :: "host \<Rightarrow> DartCLI \<Rightarrow> string \<Rightarrow> string list \<Rightarrow> world \<Rightarrow> error option \<times> world" where
  "run h d name args w =
     start h \<lparr>cmd_name = name, cmd_args = args, cmd_dir = workDir d, cmd_env = []\<rparr> w"

definition Analyze :: "host \<Rightarrow> DartCLI \<Rightarrow> world \<Rightarrow> error option \<times> world" where
  "Analyze h d w = run h d ''dart'' [''analyze'', ''--fatal-infos'', ''--fatal-warnings''] w"

definition FormatCheck :: "host \<Rightarrow> DartCLI \<Rightarrow> world \<Rightarrow> error option \<times> world" where
  "FormatCheck h d w = run h d ''dart'' [''format'', ''--set-exit-if-changed'', ''.''] w"

definition Test :: "host \<Rightarrow> DartCLI \<Rightarrow> TestConfig \<Rightarrow> world \<Rightarrow> error option \<times> world" where
  "Test h d cfg w =
     run h d ''dart''
       ([''test'']
        @ (if platform cfg \<noteq> [] then [''--platform'', platform cfg] else [])
        @ (if 0 < concurrency cfg then [''--concurrency'', Itoa (concurrency cfg)] else [])
        @ (if coverage cfg then [''--coverage''] else [])) w"

definition FlutterTest :: "host \<Rightarrow> DartCLI \<Rightarrow> world \<Rightarrow> error option \<times> world" where
  "FlutterTest h d w = run h d ''flutter'' [''test''] w"

definition PublishDryRun :: "host \<Rightarrow> DartCLI \<Rightarrow> world \<Rightarrow> error option \<times> world" where
  "PublishDryRun h d w = run h d ''dart'' [''pub'', ''publish'', ''--dry-run''] w"

text \<open>
  \<^verbatim>\<open>Publish\<close> sets the environment of the process: \<open>cmd_env\<close> holds what it appends to
  \<^verbatim>\<open>os.Environ()\<close>.
\<close>

definition Publish :: "host \<Rightarrow> DartCLI \<Rightarrow> bool \<Rightarrow> world \<Rightarrow> error option \<times> world" where
  "Publish h d force w =
     start h
       \<lparr>cmd_name = ''dart'',
        cmd_args = [''pub'', ''publish''] @ (if force then [''--force''] else []),
        cmd_dir = workDir d,
        cmd_env =
          (case credentials d of
             Some c \<Rightarrow> if AccessToken c \<noteq> [] then [''PUB_TOKEN='' @ AccessToken c] else []
           | None \<Rightarrow> [])
          @ (if hostedURL d \<noteq> [] then [''PUB_HOSTED_URL='' @ hostedURL d] else [])\<rparr> w"

section \<open>The hooks (plugin.go)\<close>

text \<open>
  The fields of \<^verbatim>\<open>Config\<close> carry the names of their JSON tags: the Go names
  \<^verbatim>\<open>UpdateVersion\<close>, \<^verbatim>\<open>AccessToken\<close>, \<^verbatim>\<open>Analyze\<close>, \<^verbatim>\<open>FormatCheck\<close> and \<^verbatim>\<open>Test\<close> are
  those of functions and fields above. The hooks receive the configuration from
  \<^verbatim>\<open>Execute\<close>, which has already set \<open>dry_run\<close> to the disjunction of the configured
  flag and the flag of the request.
\<close>

record Config =
  pubspec_path :: string
  update_version :: bool
  credentials_path :: string
  access_token :: string
  hosted_url :: string
  validate :: bool
  analyze :: bool
  format_check :: bool
  test :: bool
  test_config :: TestConfig
  dry_run_validate :: bool
  force :: bool
  exclude :: "string list"
  dry_run :: bool

record ExecuteResponse =
  Success :: bool
  Message :: string

text \<open>
  The local variable \<^verbatim>\<open>pubspecPath\<close> of both hooks: the configured path, or
  \<^verbatim>\<open>pubspec.yaml\<close> when it is empty.
\<close>

definition pubspecPath :: "Config \<Rightarrow> string" where
  "pubspecPath cfg = (if pubspec_path cfg = [] then ''pubspec.yaml'' else pubspec_path cfg)"

text \<open>
  \<^verbatim>\<open>executePrePublish\<close>. A hook returns a response and a \<^verbatim>\<open>nil\<close> error on every path,
  so the model returns the response, and the world as the hook leaves it. Each
  \<^verbatim>\<open>return\<close> inside a step ends the function: the step's \<^term>\<open>Some resp\<close> below.
\<close>

definition pre_update_version ::
  "host \<Rightarrow> Config \<Rightarrow> string \<Rightarrow> string \<Rightarrow> world \<Rightarrow> ExecuteResponse option \<times> world" where
  "pre_update_version h cfg path version w =
     (if update_version cfg then
        let w1 = Info ''Updating version in pubspec.yaml'' w
        in if dry_run cfg then (None, Info ''[DRY-RUN] Would update version'' w1)
           else (case UpdateVersion h path version (files w1) of
                   (Some err, fs) \<Rightarrow>
                     (Some \<lparr>Success = False,
                            Message = ''Failed to update version: '' @ Error err\<rparr>,
                      w1\<lparr>files := fs\<rparr>)
                 | (None, fs) \<Rightarrow> (None, w1\<lparr>files := fs\<rparr>))
      else (None, w))"

definition pre_analyze ::
  "host \<Rightarrow> Config \<Rightarrow> DartCLI \<Rightarrow> world \<Rightarrow> ExecuteResponse option \<times> world" where
  "pre_analyze h cfg dart w =
     (if analyze cfg then
        let w1 = Info ''Running dart analyze'' w
        in if dry_run cfg then (None, Info ''[DRY-RUN] Would run dart analyze'' w1)
           else (case Analyze h dart w1 of
                   (Some err, w2) \<Rightarrow>
                     (Some \<lparr>Success = False, Message = ''Analysis failed: '' @ Error err\<rparr>, w2)
                 | (None, w2) \<Rightarrow> (None, w2))
      else (None, w))"

definition pre_format_check ::
  "host \<Rightarrow> Config \<Rightarrow> DartCLI \<Rightarrow> world \<Rightarrow> ExecuteResponse option \<times> world" where
  "pre_format_check h cfg dart w =
     (if format_check cfg then
        let w1 = Info ''Checking code formatting'' w
        in if dry_run cfg then (None, Info ''[DRY-RUN] Would check code formatting'' w1)
           else (case FormatCheck h dart w1 of
                   (Some err, w2) \<Rightarrow>
                     (Some \<lparr>Success = False, Message = ''Format check failed: '' @ Error err\<rparr>, w2)
                 | (None, w2) \<Rightarrow> (None, w2))
      else (None, w))"

definition pre_test ::
  "host \<Rightarrow> Config \<Rightarrow> DartCLI \<Rightarrow> bool \<Rightarrow> world \<Rightarrow> ExecuteResponse option \<times> world" where
  "pre_test h cfg dart isFlutter w =
     (if test cfg then
        let w1 = Info ''Running tests'' w
        in if dry_run cfg then (None, Info ''[DRY-RUN] Would run tests'' w1)
           else if isFlutter then
             (case FlutterTest h dart w1 of
                (Some err, w2) \<Rightarrow>
                  (Some \<lparr>Success = False, Message = ''Flutter tests failed: '' @ Error err\<rparr>, w2)
              | (None, w2) \<Rightarrow> (None, w2))
           else
             (case Test h dart (test_config cfg) w1 of
                (Some err, w2) \<Rightarrow>
                  (Some \<lparr>Success = False, Message = ''Tests failed: '' @ Error err\<rparr>, w2)
              | (None, w2) \<Rightarrow> (None, w2))
      else (None, w))"

definition pre_dry_run_validate ::
  "host \<Rightarrow> Config \<Rightarrow> DartCLI \<Rightarrow> world \<Rightarrow> ExecuteResponse option \<times> world" where
  "pre_dry_run_validate h cfg dart w =
     (if dry_run_validate cfg then
        let w1 = Info ''Running publish dry-run validation'' w
        in if dry_run cfg then (None, Info ''[DRY-RUN] Would run dart pub publish --dry-run'' w1)
           else (case PublishDryRun h dart w1 of
                   (Some err, w2) \<Rightarrow>
                     (Some \<lparr>Success = False,
                            Message = ''Dry-run validation failed: '' @ Error err\<rparr>, w2)
                 | (None, w2) \<Rightarrow> (None, w2))
      else (None, w))"

definition executePrePublish :: "host \<Rightarrow> string \<Rightarrow> Config \<Rightarrow> world \<Rightarrow> ExecuteResponse \<times> world" where
  "executePrePublish h version cfg w =
     (case ParsePubspec h (files w) (pubspecPath cfg) of
           Inl err \<Rightarrow>
             (\<lparr>Success = False, Message = ''Failed to parse pubspec.yaml: '' @ Error err\<rparr>, w)
         | Inr pubspec \<Rightarrow>
             let isFlutter = IsFlutterPackage pubspec;
                 dart = NewDartCLI ''.''
             in (case pre_update_version h cfg (pubspecPath cfg) version w of
                   (Some resp, w1) \<Rightarrow> (resp, w1)
                 | (None, w1) \<Rightarrow>
                (case pre_analyze h cfg dart w1 of
                   (Some resp, w2) \<Rightarrow> (resp, w2)
                 | (None, w2) \<Rightarrow>
                (case pre_format_check h cfg dart w2 of
                   (Some resp, w3) \<Rightarrow> (resp, w3)
                 | (None, w3) \<Rightarrow>
                (case pre_test h cfg dart isFlutter w3 of
                   (Some resp, w4) \<Rightarrow> (resp, w4)
                 | (None, w4) \<Rightarrow>
                (case pre_dry_run_validate h cfg dart w4 of
                   (Some resp, w5) \<Rightarrow> (resp, w5)
                 | (None, w5) \<Rightarrow>
                     (\<lparr>Success = True, Message = ''Package validated successfully''\<rparr>,
                      Info ''PrePublish completed successfully'' w5)))))))"

text \<open>
  \<^verbatim>\<open>executePostPublish\<close>. The error of \<^verbatim>\<open>LoadCredentials\<close> is assigned to \<^verbatim>\<open>_\<close>; the
  credentials are then the \<^verbatim>\<open>nil\<close> pointer the function returned with it.
\<close>

definition executePostPublish :: "host \<Rightarrow> string \<Rightarrow> Config \<Rightarrow> world \<Rightarrow> ExecuteResponse \<times> world" where
  "executePostPublish h version cfg w =
     (case ParsePubspec h (files w) (pubspecPath cfg) of
           Inl err \<Rightarrow>
             (\<lparr>Success = False, Message = ''Failed to parse pubspec.yaml: '' @ Error err\<rparr>, w)
         | Inr pubspec \<Rightarrow>
             let creds =
                   (if access_token cfg \<noteq> [] then
                      Some (CreateCredentialsFromToken (access_token cfg))
                    else (case LoadCredentials h (files w) (credentials_path cfg) of
                            Inl err \<Rightarrow> None
                          | Inr c \<Rightarrow> Some c));
                 dart0 = SetCredentials (NewDartCLI ''.'') creds;
                 dart = (if hosted_url cfg \<noteq> [] then SetHostedURL dart0 (hosted_url cfg)
                         else dart0);
                 w1 = Info ''Publishing to pub.dev'' w
             in if dry_run cfg then
                  (\<lparr>Success = True,
                    Message = ''[DRY-RUN] Would publish '' @ Name pubspec @ ''@'' @ version
                              @ '' to pub.dev''\<rparr>,
                   Info ''PostPublish completed successfully''
                     (Info ''[DRY-RUN] Would publish package'' w1))
                else (case Publish h dart (force cfg) w1 of
                        (Some err, w2) \<Rightarrow>
                          (\<lparr>Success = False, Message = ''Publish failed: '' @ Error err\<rparr>, w2)
                      | (None, w2) \<Rightarrow>
                          (\<lparr>Success = True,
                            Message = ''Published '' @ Name pubspec @ ''@'' @ version
                                      @ '' to pub.dev''\<rparr>,
                           Info ''PostPublish completed successfully'' w2)))"


section \<open>Notions used to state the properties\<close>

text \<open>
  The lines of a text: the pieces between line feeds. A text that ends with a line feed
  has an empty last line.
\<close>

fun lines_of :: "string \<Rightarrow> string list" where
  "lines_of [] = [[]]"
| "lines_of (c # cs) =
     (if c = CHR 0x0A then [] # lines_of cs
      else (case lines_of cs of l # ls \<Rightarrow> (c # l) # ls | [] \<Rightarrow> [[c]]))"

fun join_lines :: "string list \<Rightarrow> string" where
  "join_lines [] = []"
| "join_lines [l] = l"
| "join_lines (l # l' # ls) = l @ CHR 0x0A # join_lines (l' # ls)"

text \<open>
  A line that has something other than white space after its first eight bytes: for a
  line that starts with \<^verbatim>\<open>version:\<close>, the key has a value on the same line.
  \<open>rewrite_line\<close> is what the specification says happens to each line.
\<close>

definition has_value :: "string \<Rightarrow> bool" where
  "has_value l = (\<exists>c\<in>set (drop 8 l). \<not> in_class PerlSpace c)"

definition rewrite_line :: "string \<Rightarrow> string \<Rightarrow> string" where
  "rewrite_line version l = (if prefix ''version:'' l then ''version: '' @ version else l)"

text \<open>
  The matches that the loop of \<open>replaceAll\<close> finds, in order: for each one the text
  skipped before it, the match, and all the text after it. \<open>spliced f\<close> puts the
  text together again with \<open>f\<close> applied to each match.
\<close>

function all_matches :: "regexp \<Rightarrow> char option \<Rightarrow> string \<Rightarrow> (string \<times> string \<times> string) list" where
  "all_matches rs prev s =
     (case rx_find rs prev s of
        None \<Rightarrow> []
      | Some (p, m, r) \<Rightarrow>
          if m = [] then [(p, m, r)]
          else (p, m, r) # all_matches rs (Some (last m)) r)"
  by pat_completeness auto
termination
proof (relation "measure (\<lambda>(rs, prev, s). length s)")
  show "wf (measure (\<lambda>(rs, prev, s). length s))" by simp
next
  fix rs :: regexp and prev s x2 p y m r
  assume "rx_find rs prev s = Some x2" "(p, y) = x2" "(m, r) = y" "m \<noteq> []"
  then have "s = p @ m @ r" by (auto dest: rx_find_decomp)
  with \<open>m \<noteq> []\<close>
  show "((rs, Some (last m), r), (rs, prev, s)) \<in> measure (\<lambda>(rs, prev, s). length s)"
    by simp
qed

declare all_matches.simps [simp del]

definition spliced :: "(string \<Rightarrow> string) \<Rightarrow> (string \<times> string \<times> string) list \<Rightarrow> string \<Rightarrow> string" where
  "spliced f segs s =
     (if segs = [] then s
      else concat (map (\<lambda>(p, m, r). p @ f m) segs) @ snd (snd (last segs)))"

definition at_bol :: "char option \<Rightarrow> bool" where
  "at_bol prev = (prev = None \<or> prev = Some (CHR 0x0A))"

text \<open>
  The seven rules of \<^verbatim>\<open>ValidatePubspec\<close> in the order the specification lists them,
  each with what violates it and the message it reports; \<open>first_violation\<close> is the
  error of the first rule in the list that the manifest violates.
\<close>

definition validation_rules :: "((Pubspec \<Rightarrow> bool) \<times> (Pubspec \<Rightarrow> string)) list" where
  "validation_rules =
     [(\<lambda>p. Name p = [], \<lambda>p. ''package name is required''),
      (\<lambda>p. Version p = [], \<lambda>p. ''version is required''),
      (\<lambda>p. Description p = [], \<lambda>p. ''description is required for pub.dev''),
      (\<lambda>p. length (Description p) < 60,
       \<lambda>p. ''description should be at least 60 characters (currently ''
            @ Itoa (int (length (Description p))) @ '')''),
      (\<lambda>p. 180 < length (Description p),
       \<lambda>p. ''description should be at most 180 characters (currently ''
            @ Itoa (int (length (Description p))) @ '')''),
      (\<lambda>p. Environment p = None, \<lambda>p. ''environment section is required''),
      (\<lambda>p. case go_lookup (Environment p) ''sdk'' of None \<Rightarrow> True | Some sdk \<Rightarrow> sdk = [],
       \<lambda>p. ''SDK constraint is required in environment section'')]"

definition first_violation :: "Pubspec \<Rightarrow> error option" where
  "first_violation p =
     map_option (\<lambda>(violated, msg). Errorf (msg p)) (find (\<lambda>(violated, msg). violated p) validation_rules)"

text \<open>
  The number of characters of a UTF-8 text: the bytes that do not continue a multi-byte
  sequence (\<^verbatim>\<open>10xxxxxx\<close>). For ASCII text it is the number of bytes.
\<close>

definition utf8_characters :: "string \<Rightarrow> nat" where
  "utf8_characters s = length (filter (\<lambda>c. \<not> (128 \<le> (of_char c :: nat) \<and> (of_char c :: nat) < 192)) s)"

text \<open>
  The commands that the wrapper builds for \<^verbatim>\<open>NewDartCLI(".")\<close>, the response of a failed
  step, and the command of \<^verbatim>\<open>Publish\<close> for given credentials.
\<close>

definition dart_cmd :: "string \<Rightarrow> string list \<Rightarrow> command" where
  "dart_cmd name args = \<lparr>cmd_name = name, cmd_args = args, cmd_dir = ''.'', cmd_env = []\<rparr>"

definition analyze_cmd :: command where
  "analyze_cmd = dart_cmd ''dart'' [''analyze'', ''--fatal-infos'', ''--fatal-warnings'']"

definition format_cmd :: command where
  "format_cmd = dart_cmd ''dart'' [''format'', ''--set-exit-if-changed'', ''.'']"

definition test_cmd :: "bool \<Rightarrow> TestConfig \<Rightarrow> command" where
  "test_cmd isFlutter tc =
     (if isFlutter then dart_cmd ''flutter'' [''test'']
      else dart_cmd ''dart''
             ([''test'']
              @ (if platform tc \<noteq> [] then [''--platform'', platform tc] else [])
              @ (if 0 < concurrency tc then [''--concurrency'', Itoa (concurrency tc)] else [])
              @ (if coverage tc then [''--coverage''] else [])))"

definition publish_dry_run_cmd :: command where
  "publish_dry_run_cmd = dart_cmd ''dart'' [''pub'', ''publish'', ''--dry-run'']"

definition failure :: "string \<Rightarrow> error \<Rightarrow> ExecuteResponse" where
  "failure step err = \<lparr>Success = False, Message = step @ Error err\<rparr>"

definition publish_cmd :: "PubCredentials option \<Rightarrow> Config \<Rightarrow> command" where
  "publish_cmd creds cfg =
     \<lparr>cmd_name = ''dart'',
      cmd_args = [''pub'', ''publish''] @ (if force cfg then [''--force''] else []),
      cmd_dir = ''.'',
      cmd_env =
        (case creds of
           Some c \<Rightarrow> if AccessToken c \<noteq> [] then [''PUB_TOKEN='' @ AccessToken c] else []
         | None \<Rightarrow> [])
        @ (if hosted_url cfg \<noteq> [] then [''PUB_HOSTED_URL='' @ hosted_url cfg] else [])\<rparr>"

text \<open>
  \<^verbatim>\<open>executePostPublish\<close> from the publish step on (lines 263 to 290 of the source), for
  credentials that are already resolved.
\<close>

definition publish_with ::
  "host \<Rightarrow> string \<Rightarrow> Config \<Rightarrow> Pubspec \<Rightarrow> PubCredentials option \<Rightarrow> world \<Rightarrow> ExecuteResponse \<times> world" where
  "publish_with h version cfg pubspec creds w =
     (if dry_run cfg then
        (\<lparr>Success = True,
          Message = ''[DRY-RUN] Would publish '' @ Name pubspec @ ''@'' @ version @ '' to pub.dev''\<rparr>,
         w\<lparr>logged := logged w @ [''Publishing to pub.dev'', ''[DRY-RUN] Would publish package'',
                                  ''PostPublish completed successfully'']\<rparr>)
      else
        (case cmd_error h (publish_cmd creds cfg) of
           Some err \<Rightarrow>
             (failure ''Publish failed: '' err,
              w\<lparr>executed := executed w @ [publish_cmd creds cfg],
                logged := logged w @ [''Publishing to pub.dev'']\<rparr>)
         | None \<Rightarrow>
             (\<lparr>Success = True,
               Message = ''Published '' @ Name pubspec @ ''@'' @ version @ '' to pub.dev''\<rparr>,
              w\<lparr>executed := executed w @ [publish_cmd creds cfg],
                logged := logged w @ [''Publishing to pub.dev'',
                                       ''PostPublish completed successfully'']\<rparr>)))"

section \<open>Concrete inputs\<close>

text \<open>
  A manifest model that passes validation, a Flutter variant of it, and credentials that
  expire at second 1000.
\<close>

definition sample_pubspec :: Pubspec where
  "sample_pubspec =
     \<lparr>Name = ''p'', Version = ''1.0.0'',
      Description = replicate 90 CHR ''d'',
      Homepage = [], Repository = [],
      Environment = Some (fmupd ''sdk'' ''>=3.0.0'' fmempty),
      Dependencies = None, DevDeps = None, Flutter = None\<rparr>"

definition flutter_pubspec :: Pubspec where
  "flutter_pubspec =
     sample_pubspec\<lparr>Dependencies :=
       Some (fmupd ''flutter'' (AnyMap [(''sdk'', AnyString ''flutter'')]) fmempty)\<rparr>"

definition sample_creds :: PubCredentials where
  "sample_creds = \<lparr>AccessToken = ''token'', RefreshToken = [], TokenEndpoint = [],
                    Expiration = 1000\<rparr>"

text \<open>
  The two bytes of the letter e with an acute accent (U+00E9) in UTF-8.
\<close>

definition e_acute :: string where
  "e_acute = [CHR 0xC3, CHR 0xA9]"

text \<open>
  A host whose YAML decoder returns the given manifest model, that has no credentials file,
  and whose external processes end as \<open>outcome\<close> says: all succeed, or the one with
  the given arguments fails.
\<close>

definition plain_host :: "Pubspec \<Rightarrow> (command \<Rightarrow> string \<times> error option) \<Rightarrow> host" where
  "plain_host pubspec outcome =
     \<lparr>yaml_Unmarshal = (\<lambda>data. Inr pubspec),
      json_Unmarshal = (\<lambda>data. Inl (Errorf ''unexpected end of JSON input'')),
      UserHomeDir = Inr ''/home/dev'',
      filepath_Join = (\<lambda>xs. foldr (\<lambda>a b. if b = [] then a else a @ ''/'' @ b) xs []),
      TrimSpace = (\<lambda>s. s),
      cmd_Run = outcome,
      write_denied = (\<lambda>path. False),
      unicode_name_rune = (\<lambda>s. 0)\<rparr>"

definition all_pass :: "command \<Rightarrow> string \<times> error option" where
  "all_pass cmd = ([], None)"

definition fail_on :: "string list \<Rightarrow> command \<Rightarrow> string \<times> error option" where
  "fail_on args cmd =
     (if cmd_args cmd = args then (''Some tests failed.'', Some (Errorf ''exit status 1''))
      else ([], None))"

text \<open>
  Manifest texts: one with a comment above the version line and a comment after the
  value; one whose \<^verbatim>\<open>version:\<close> line has no value and is followed by a comment line;
  one whose only \<^verbatim>\<open>version:\<close> is indented; and the manifest of the end-to-end scenarios
  of the specification. Then three worlds: one that holds the scenario manifest, one that
  holds the manifest without a top-level version, and one with no file at all.
\<close>

definition manifest_a :: string where
  "manifest_a = ''name: p\<newline># the package version\<newline>version:   1.0.0 # stable\<newline>description: d\<newline>''"

definition manifest_b :: string where
  "manifest_b = ''version:\<newline># the package version\<newline>name: p\<newline>''"

definition manifest_c :: string where
  "manifest_c = ''name: p\<newline>  version: 1.0.0\<newline>''"

definition manifest_s :: string where
  "manifest_s = ''name: p\<newline>version: 1.0.0\<newline>description: '' @ replicate 90 CHR ''d''
                 @ ''\<newline>environment:\<newline>  sdk: ^3.0.0\<newline>''"

definition world_s :: world where
  "world_s = \<lparr>files = [''pubspec.yaml'' \<mapsto> manifest_s], executed = [], logged = []\<rparr>"

definition world_c :: world where
  "world_c = \<lparr>files = [''pubspec.yaml'' \<mapsto> manifest_c], executed = [], logged = []\<rparr>"

definition world_e :: world where
  "world_e = \<lparr>files = Map.empty, executed = [], logged = []\<rparr>"

text \<open>
  A host that also decodes a credentials file, and a world that has one at the default
  path.
\<close>

definition creds_host :: host where
  "creds_host = (plain_host sample_pubspec all_pass)\<lparr>json_Unmarshal := (\<lambda>data. Inr sample_creds)\<rparr>"

definition world_k :: world where
  "world_k = \<lparr>files = [''pubspec.yaml'' \<mapsto> manifest_s,
                          ''/home/dev/.pub-cache/credentials.json'' \<mapsto> ''{}''],
              executed = [], logged = []\<rparr>"

text \<open>
  A configuration with every step enabled, and the same with an access token.
\<close>

definition all_gates :: "bool \<Rightarrow> Config" where
  "all_gates dry =
     \<lparr>pubspec_path = ''pubspec.yaml'', update_version = True, credentials_path = [],
      access_token = [], hosted_url = [], validate = True, analyze = True,
      format_check = True, test = True,
      test_config = \<lparr>platform = ''vm'', concurrency = 4, coverage = False\<rparr>,
      dry_run_validate = True, force = True, exclude = [], dry_run = dry\<rparr>"

definition token_cfg :: "string \<Rightarrow> Config" where
  "token_cfg tok = (all_gates False)\<lparr>access_token := tok\<rparr>"

section \<open>Properties\<close>

subsection \<open>Auxiliary facts\<close>

lemma fmdom_fempty_iff: "fmdom f = {||} \<longleftrightarrow> f = fmempty"
proof
  assume "fmdom f = {||}"
  then have "fmlookup f x = None" for x
    by (simp add: fmdom_notD)
  then show "f = fmempty"
    by (intro fmap_ext) simp
qed simp

lemma go_len_pos: "0 < go_len m \<longleftrightarrow> (\<exists>f. m = Some f \<and> f \<noteq> fmempty)"
proof (cases m)
  case None
  then show ?thesis by (simp add: go_len_def)
next
  case (Some f)
  have "0 < fcard (fmdom f) \<longleftrightarrow> fmdom f \<noteq> {||}"
    using fcard_0_eq [of "fmdom f"] by arith
  with Some show ?thesis by (simp add: go_len_def fmdom_fempty_iff)
qed

lemma go_len_None: "go_len None = 0"
  by (simp add: go_len_def)

lemma Itoa_59: "Itoa 59 = ''59''"
  by code_simp

lemma Itoa_181: "Itoa 181 = ''181''"
  by code_simp

lemma utf8_characters_replicate: "utf8_characters (concat (replicate n e_acute)) = n"
  by (induction n) (simp_all add: utf8_characters_def e_acute_def)

lemma length_replicate_e: "length (concat (replicate n e_acute)) = 2 * n"
  by (induction n) (simp_all add: e_acute_def)

lemma utf8_characters_ascii:
  "\<forall>c \<in> set s. (of_char c :: nat) < 128 \<Longrightarrow> utf8_characters s = length s"
  by (induction s) (simp_all add: utf8_characters_def)

lemma lines_of_nonempty: "lines_of s \<noteq> []"
  by (induction s) (auto split: list.splits)

lemma prefix_first_line: "prefix p s \<Longrightarrow> CHR 0x0A \<notin> set p \<Longrightarrow> prefix p (hd (lines_of s))"
proof (induction p arbitrary: s)
  case Nil
  then show ?case by simp
next
  case (Cons a p)
  then obtain t where s: "s = a # t" and pt: "prefix p t"
    by (cases s) auto
  from Cons.IH [OF pt] Cons.prems have "prefix p (hd (lines_of t))" by simp
  with s Cons.prems lines_of_nonempty [of t] show ?case
    by (auto split: list.splits)
qed

lemma rx_match_lit:
  "rx_match (map Char lit @ rs) prev s = Some m \<Longrightarrow> prefix lit s \<and> prefix lit m"
proof (induction lit arbitrary: prev s m)
  case Nil
  then show ?case by simp
next
  case (Cons a lit)
  then show ?case by (cases s) (auto split: if_splits)
qed

lemma version_match_start:
  assumes "rx_match version_pattern prev s = Some m"
  shows "(prev = None \<or> prev = Some (CHR 0x0A)) \<and> prefix ''version:'' s \<and> prefix ''version:'' m"
proof -
  from assms have bol: "prev = None \<or> prev = Some (CHR 0x0A)"
    and m: "rx_match (map Char ''version:'' @ [Star PerlSpace, Plus AnyCharNotNL, EndLine]) prev s = Some m"
    by (auto simp: version_pattern_def split: if_splits)
  from rx_match_lit [OF m] bol show ?thesis by blast
qed

lemma rx_match_to_eol:
  "rx_match rs prev s = Some m \<Longrightarrow> rs \<noteq> [] \<Longrightarrow> last rs = EndLine
   \<Longrightarrow> drop (length m) s = [] \<or> hd (drop (length m) s) = CHR 0x0A"
proof (induction rs prev s arbitrary: m rule: rx_match.induct)
  case (3 rs prev s)
  then show ?case by (cases "rs = []") (auto split: if_splits)
next
  case (7 cc rs prev x xs)
  then show ?case by (cases "rs = []") (auto split: if_splits option.splits)
qed (auto split: if_splits option.splits)

lemma version_find:
  assumes "rx_find version_pattern prev s = Some (p, m, r)"
  shows "prefix ''version:'' m \<and> (r = [] \<or> hd r = CHR 0x0A)"
  using assms
proof (induction s arbitrary: prev p)
  case Nil
  then show ?case by (auto dest: version_match_start)
next
  case (Cons x xs)
  show ?case
  proof (cases "rx_match version_pattern prev (x # xs)")
    case None
    with Cons.prems obtain p' where "rx_find version_pattern (Some x) xs = Some (p', m, r)"
      by auto
    then show ?thesis by (rule Cons.IH)
  next
    case (Some m')
    with Cons.prems have eq: "m' = m" "r = drop (length m) (x # xs)" by auto
    have "version_pattern \<noteq> []" "last version_pattern = EndLine"
      by (simp_all add: version_pattern_def)
    with rx_match_to_eol [OF Some] version_match_start [OF Some] eq show ?thesis
      by blast
  qed
qed

lemma no_version_find:
  "(if at_bol prev then \<forall>l\<in>set (lines_of s). \<not> prefix ''version:'' l
    else \<forall>l\<in>set (tl (lines_of s)). \<not> prefix ''version:'' l)
   \<Longrightarrow> rx_find version_pattern prev s = None"
proof (induction s arbitrary: prev)
  case Nil
  have "rx_match version_pattern prev [] = None"
    using version_match_start [of prev "[]"] by (cases "rx_match version_pattern prev []") auto
  then show ?case by simp
next
  case (Cons x xs)
  have nomatch: "rx_match version_pattern prev (x # xs) = None"
  proof (cases "rx_match version_pattern prev (x # xs)")
    case (Some m)
    from version_match_start [OF Some] have b: "at_bol prev" and pre: "prefix ''version:'' (x # xs)"
      by (auto simp: at_bol_def)
    from prefix_first_line [OF pre] have "prefix ''version:'' (hd (lines_of (x # xs)))" by simp
    moreover have "hd (lines_of (x # xs)) \<in> set (lines_of (x # xs))"
      using lines_of_nonempty by (intro hd_in_set)
    ultimately show ?thesis using Cons.prems b by auto
  qed simp
  have "rx_find version_pattern (Some x) xs = None"
  proof (rule Cons.IH)
    show "if at_bol (Some x) then \<forall>l\<in>set (lines_of xs). \<not> prefix ''version:'' l
          else \<forall>l\<in>set (tl (lines_of xs)). \<not> prefix ''version:'' l"
      using Cons.prems lines_of_nonempty [of xs]
      by (cases "at_bol prev"; cases "lines_of xs") (auto simp: at_bol_def split: if_splits)
  qed
  with nomatch show ?case by simp
qed

lemma expand_no_dollar: "CHR ''$'' \<notin> set t \<Longrightarrow> expand uni t m = t"
  by (induction t) auto

lemma replaceAll_spliced:
  "replaceAll rs f prev s = spliced f (all_matches rs prev s) s"
proof (induction rs f prev s rule: replaceAll.induct)
  case (1 rs repl prev s)
  show ?case
  proof (cases "rx_find rs prev s")
    case None
    then show ?thesis by (simp add: replaceAll.simps all_matches.simps spliced_def)
  next
    case (Some t)
    obtain p m r where t: "t = (p, m, r)" by (cases t)
    show ?thesis
    proof (cases "m = []")
      case True
      with Some t show ?thesis
        by (simp add: replaceAll.simps [of rs repl prev s] all_matches.simps [of rs prev s] spliced_def)
    next
      case False
      with Some t 1 have IH: "replaceAll rs repl (Some (last m)) r = spliced repl (all_matches rs (Some (last m)) r) r"
        by simp
      from Some t False show ?thesis
        by (simp add: replaceAll.simps [of rs repl prev s] all_matches.simps [of rs prev s] IH spliced_def)
    qed
  qed
qed

lemma all_matches_found:
  "(p, m, r) \<in> set (all_matches rs prev s) \<Longrightarrow> \<exists>prev' s'. rx_find rs prev' s' = Some (p, m, r)"
proof (induction rs prev s rule: all_matches.induct)
  case (1 rs prev s)
  show ?case
  proof (cases "rx_find rs prev s")
    case None
    with 1 show ?thesis by (simp add: all_matches.simps)
  next
    case (Some t)
    obtain p0 m0 r0 where t: "t = (p0, m0, r0)" by (cases t)
    show ?thesis
    proof (cases "m0 = []")
      case True
      with Some t "1.prems" show ?thesis
        by (auto simp: all_matches.simps [of rs prev s])
    next
      case False
      with Some t "1.prems"
      have "(p, m, r) = (p0, m0, r0) \<or> (p, m, r) \<in> set (all_matches rs (Some (last m0)) r0)"
        by (auto simp: all_matches.simps [of rs prev s])
      then show ?thesis
      proof
        assume "(p, m, r) = (p0, m0, r0)"
        with Some t show ?thesis by blast
      next
        assume "(p, m, r) \<in> set (all_matches rs (Some (last m0)) r0)"
        with "1.IH" Some t False show ?thesis by simp
      qed
    qed
  qed
qed

lemma spliced_same: "spliced (\<lambda>m. m) (all_matches rs prev s) s = s"
proof (induction rs prev s rule: all_matches.induct)
  case (1 rs prev s)
  show ?case
  proof (cases "rx_find rs prev s")
    case None
    then show ?thesis by (simp add: all_matches.simps spliced_def)
  next
    case (Some t)
    obtain p m r where t: "t = (p, m, r)" by (cases t)
    from Some t have s: "s = p @ m @ r" by (auto dest: rx_find_decomp)
    show ?thesis
    proof (cases "m = []")
      case True
      with Some t have "all_matches rs prev s = [(p, m, r)]"
        by (simp add: all_matches.simps [of rs prev s])
      with s True show ?thesis
        by (simp add: spliced_def)
    next
      case False
      with Some t 1 have IH: "spliced (\<lambda>m. m) (all_matches rs (Some (last m)) r) r = r"
        by simp
      from Some t False
      have "all_matches rs prev s = (p, m, r) # all_matches rs (Some (last m)) r"
        by (simp add: all_matches.simps [of rs prev s])
      with s IH show ?thesis
        by (auto simp: spliced_def split: if_splits)
    qed
  qed
qed

lemma Info_proj [simp]:
  "files (Info msg w) = files w" "executed (Info msg w) = executed w"
  "logged (Info msg w) = logged w @ [msg]"
  by (simp_all add: Info_def)

lemma run_eq: "run h (NewDartCLI ''.'') name args w
   = (cmd_error h (dart_cmd name args), w\<lparr>executed := executed w @ [dart_cmd name args]\<rparr>)"
  by (simp add: run_def start_def NewDartCLI_def dart_cmd_def)

lemma pre_update_version_real:
  assumes "\<not> dry_run cfg"
  shows "pre_update_version h cfg path version w =
     (if update_version cfg then
        (map_option (failure ''Failed to update version: '') (fst (UpdateVersion h path version (files w))),
         (Info ''Updating version in pubspec.yaml'' w)
           \<lparr>files := snd (UpdateVersion h path version (files w))\<rparr>)
      else (None, w))"
  using assms
  by (simp add: pre_update_version_def failure_def Let_def split: prod.splits option.splits)

lemma pre_analyze_real:
  assumes "\<not> dry_run cfg"
  shows "pre_analyze h cfg (NewDartCLI ''.'') w =
     (if analyze cfg then
        (map_option (failure ''Analysis failed: '') (cmd_error h analyze_cmd),
         (Info ''Running dart analyze'' w)\<lparr>executed := executed w @ [analyze_cmd]\<rparr>)
      else (None, w))"
  using assms
  by (simp add: pre_analyze_def Analyze_def run_eq analyze_cmd_def failure_def Let_def
      split: option.splits)

lemma pre_format_check_real:
  assumes "\<not> dry_run cfg"
  shows "pre_format_check h cfg (NewDartCLI ''.'') w =
     (if format_check cfg then
        (map_option (failure ''Format check failed: '') (cmd_error h format_cmd),
         (Info ''Checking code formatting'' w)\<lparr>executed := executed w @ [format_cmd]\<rparr>)
      else (None, w))"
  using assms
  by (simp add: pre_format_check_def FormatCheck_def run_eq format_cmd_def failure_def Let_def
      split: option.splits)

lemma Test_eq:
  "Test h (NewDartCLI ''.'') tc w
     = (cmd_error h (test_cmd False tc), w\<lparr>executed := executed w @ [test_cmd False tc]\<rparr>)"
  unfolding Test_def run_eq test_cmd_def by simp

lemma FlutterTest_eq:
  "FlutterTest h (NewDartCLI ''.'') w
     = (cmd_error h (test_cmd True tc), w\<lparr>executed := executed w @ [test_cmd True tc]\<rparr>)"
  unfolding FlutterTest_def run_eq test_cmd_def by simp

lemma pre_test_real:
  assumes "\<not> dry_run cfg"
  shows "pre_test h cfg (NewDartCLI ''.'') isFlutter w =
     (if test cfg then
        (map_option (failure (if isFlutter then ''Flutter tests failed: '' else ''Tests failed: ''))
           (cmd_error h (test_cmd isFlutter (test_config cfg))),
         (Info ''Running tests'' w)
           \<lparr>executed := executed w @ [test_cmd isFlutter (test_config cfg)]\<rparr>)
      else (None, w))"
proof (cases isFlutter)
  case True
  with assms show ?thesis
    by (simp add: pre_test_def FlutterTest_eq [where tc = "test_config cfg"] failure_def Let_def
        split: option.splits)
next
  case False
  with assms show ?thesis
    by (simp add: pre_test_def Test_eq failure_def Let_def split: option.splits)
qed

lemma pre_dry_run_validate_real:
  assumes "\<not> dry_run cfg"
  shows "pre_dry_run_validate h cfg (NewDartCLI ''.'') w =
     (if dry_run_validate cfg then
        (map_option (failure ''Dry-run validation failed: '') (cmd_error h publish_dry_run_cmd),
         (Info ''Running publish dry-run validation'' w)
           \<lparr>executed := executed w @ [publish_dry_run_cmd]\<rparr>)
      else (None, w))"
  using assms
  by (simp add: pre_dry_run_validate_def PublishDryRun_def run_eq publish_dry_run_cmd_def
      failure_def Let_def split: option.splits)

lemma UpdateVersion_failed_files:
  "fst (UpdateVersion h path version fs) = Some err \<Longrightarrow> snd (UpdateVersion h path version fs) = fs"
  by (auto simp: UpdateVersion_def WriteFile_def Let_def split: sum.splits if_splits)

lemma pre_update_version_dry:
  "dry_run cfg \<Longrightarrow> pre_update_version h cfg path version w =
     (None, w\<lparr>logged := logged w @ (if update_version cfg
        then [''Updating version in pubspec.yaml'', ''[DRY-RUN] Would update version''] else [])\<rparr>)"
  by (simp add: pre_update_version_def Info_def)

lemma pre_analyze_dry:
  "dry_run cfg \<Longrightarrow> pre_analyze h cfg d w =
     (None, w\<lparr>logged := logged w @ (if analyze cfg
        then [''Running dart analyze'', ''[DRY-RUN] Would run dart analyze''] else [])\<rparr>)"
  by (simp add: pre_analyze_def Info_def)

lemma pre_format_check_dry:
  "dry_run cfg \<Longrightarrow> pre_format_check h cfg d w =
     (None, w\<lparr>logged := logged w @ (if format_check cfg
        then [''Checking code formatting'', ''[DRY-RUN] Would check code formatting''] else [])\<rparr>)"
  by (simp add: pre_format_check_def Info_def)

lemma pre_test_dry:
  "dry_run cfg \<Longrightarrow> pre_test h cfg d isFlutter w =
     (None, w\<lparr>logged := logged w @ (if test cfg
        then [''Running tests'', ''[DRY-RUN] Would run tests''] else [])\<rparr>)"
  by (simp add: pre_test_def Info_def)

lemma pre_dry_run_validate_dry:
  "dry_run cfg \<Longrightarrow> pre_dry_run_validate h cfg d w =
     (None, w\<lparr>logged := logged w @ (if dry_run_validate cfg
        then [''Running publish dry-run validation'',
              ''[DRY-RUN] Would run dart pub publish --dry-run''] else [])\<rparr>)"
  by (simp add: pre_dry_run_validate_def Info_def)

lemma parse_s: "ParsePubspec (plain_host sample_pubspec out) (files world_s) ''pubspec.yaml'' = Inr sample_pubspec"
  by (simp add: ParsePubspec_def ReadFile_def world_s_def plain_host_def)

lemma not_flutter_sample: "\<not> IsFlutterPackage sample_pubspec"
  by (simp add: IsFlutterPackage_def sample_pubspec_def go_lookup_def go_len_def)

lemma cmd_error_all_pass: "cmd_error (plain_host p all_pass) cmd = None"
  by (simp add: cmd_error_def plain_host_def all_pass_def)

lemma tcmd_s: "test_cmd False (test_config (all_gates dry))
   = dart_cmd ''dart'' [''test'', ''--platform'', ''vm'', ''--concurrency'', ''4'']"
proof -
  have "Itoa 4 = ''4''" by code_simp
  then show ?thesis by (simp add: test_cmd_def all_gates_def)
qed

lemma upd_s: "fst (UpdateVersion (plain_host p out) ''pubspec.yaml'' ''2.0.0'' (files world_s)) = None"
  by code_simp

lemma upd_s_files:
  "snd (UpdateVersion (plain_host p out) ''pubspec.yaml'' ''2.0.0'' (files world_s)) ''pubspec.yaml''
     = Some (''name: p\<newline>version: 2.0.0\<newline>description: '' @ replicate 90 CHR ''d''
                 @ ''\<newline>environment:\<newline>  sdk: ^3.0.0\<newline>'')"
  by code_simp

lemma join_lines_of: "join_lines (lines_of s) = s"
proof (induction s)
  case Nil
  then show ?case by simp
next
  case (Cons c s)
  obtain l ls where ls: "lines_of s = l # ls"
    using lines_of_nonempty [of s] by (cases "lines_of s") auto
  with Cons show ?case by (cases ls) auto
qed

lemma lines_of_no_nl: "l \<in> set (lines_of s) \<Longrightarrow> CHR 0x0A \<notin> set l"
proof (induction s arbitrary: l)
  case Nil
  then show ?case by simp
next
  case (Cons c s)
  obtain l0 ls where ls: "lines_of s = l0 # ls"
    using lines_of_nonempty [of s] by (cases "lines_of s") auto
  with Cons show ?case by (auto split: if_splits)
qed

lemma lines_of_first: "CHR 0x0A \<notin> set l \<Longrightarrow> lines_of (l @ CHR 0x0A # s) = l # lines_of s"
  by (induction l) auto

lemma star_any_to_eol:
  "CHR 0x0A \<notin> set t \<Longrightarrow> rest = [] \<or> hd rest = CHR 0x0A
   \<Longrightarrow> rx_match [Star AnyCharNotNL, EndLine] prev (t @ rest) = Some t"
proof (induction t arbitrary: prev)
  case Nil
  then show ?case by (cases rest) auto
next
  case (Cons a t)
  then show ?case by auto
qed

lemma space_then_value:
  "\<forall>c\<in>set ws. in_class PerlSpace c \<Longrightarrow> \<not> in_class PerlSpace c \<Longrightarrow> CHR 0x0A \<notin> set t
   \<Longrightarrow> rest = [] \<or> hd rest = CHR 0x0A
   \<Longrightarrow> rx_match [Star PerlSpace, Plus AnyCharNotNL, EndLine] prev (ws @ c # t @ rest)
         = Some (ws @ c # t)"
proof (induction ws arbitrary: prev)
  case Nil
  then have "c \<noteq> CHR 0x0A" by auto
  with Nil show ?case by (simp add: star_any_to_eol)
next
  case (Cons a ws)
  then show ?case by simp
qed

lemma rx_match_lit_eq:
  "rx_match (map Char lit @ rs) prev (lit @ s)
     = map_option ((@) lit) (rx_match rs (if lit = [] then prev else Some (last lit)) s)"
proof (induction lit arbitrary: prev)
  case Nil
  then show ?case by (simp add: option.map_ident)
next
  case (Cons a lit)
  then show ?case by (cases "rx_match rs (Some (last (a # lit))) s") auto
qed

lemma split_value:
  assumes "\<exists>c\<in>set v. \<not> in_class PerlSpace c"
  shows "\<exists>ws c t. v = ws @ c # t \<and> (\<forall>x\<in>set ws. in_class PerlSpace x) \<and> \<not> in_class PerlSpace c"
  using assms
proof (induction v)
  case Nil
  then show ?case by simp
next
  case (Cons a v)
  show ?case
  proof (cases "in_class PerlSpace a")
    case False
    then have "a # v = [] @ a # v \<and> (\<forall>x\<in>set []. in_class PerlSpace x) \<and> \<not> in_class PerlSpace a"
      by simp
    then show ?thesis by blast
  next
    case True
    with Cons.prems have "\<exists>c\<in>set v. \<not> in_class PerlSpace c" by auto
    from Cons.IH [OF this] obtain ws c t
      where "v = ws @ c # t" "\<forall>x\<in>set ws. in_class PerlSpace x" "\<not> in_class PerlSpace c"
      by blast
    with True have "a # v = (a # ws) @ c # t \<and> (\<forall>x\<in>set (a # ws). in_class PerlSpace x)
        \<and> \<not> in_class PerlSpace c"
      by simp
    then show ?thesis by blast
  qed
qed

lemma version_line_match:
  assumes bol: "at_bol prev" and pre: "prefix ''version:'' l" and val: "has_value l"
    and nl: "CHR 0x0A \<notin> set l" and rest: "rest = [] \<or> hd rest = CHR 0x0A"
  shows "rx_match version_pattern prev (l @ rest) = Some l"
proof -
  from pre obtain v where l: "l = ''version:'' @ v" by (auto simp: prefix_def)
  with val have "\<exists>c\<in>set v. \<not> in_class PerlSpace c" by (simp add: has_value_def)
  from split_value [OF this] obtain ws c t
    where v: "v = ws @ c # t" and ws: "\<forall>x\<in>set ws. in_class PerlSpace x"
      and c: "\<not> in_class PerlSpace c"
    by blast
  from nl l v have t: "CHR 0x0A \<notin> set t" by simp
  have "rx_match (map Char ''version:'' @ [Star PerlSpace, Plus AnyCharNotNL, EndLine]) prev
          (''version:'' @ (ws @ c # t @ rest))
        = map_option ((@) ''version:'')
            (rx_match [Star PerlSpace, Plus AnyCharNotNL, EndLine] (Some (CHR '':''))
               (ws @ c # t @ rest))"
    using rx_match_lit_eq [of "''version:''" "[Star PerlSpace, Plus AnyCharNotNL, EndLine]" prev
        "ws @ c # t @ rest"]
    by simp
  also have "\<dots> = Some (''version:'' @ ws @ c # t)"
    by (simp only: space_then_value [OF ws c t rest] option.map append_assoc)
  finally have "rx_match (map Char ''version:'' @ [Star PerlSpace, Plus AnyCharNotNL, EndLine]) prev
          (l @ rest) = Some l"
    using l v by simp
  with bol show ?thesis
    by (simp add: version_pattern_def at_bol_def)
qed

lemma replaceAll_step:
  assumes "rx_match rs prev (x # xs) = None"
  shows "replaceAll rs f prev (x # xs) = x # replaceAll rs f (Some x) xs"
proof (cases "rx_find rs (Some x) xs")
  case None
  with assms show ?thesis
    by (simp add: replaceAll.simps [of rs f prev "x # xs"] replaceAll.simps [of rs f "Some x" xs])
next
  case (Some t)
  obtain p m r where "t = (p, m, r)" by (cases t)
  with Some assms show ?thesis
    by (simp add: replaceAll.simps [of rs f prev "x # xs"] replaceAll.simps [of rs f "Some x" xs])
qed

lemma replaceAll_match:
  assumes "rx_match rs prev (m @ r) = Some m" "m \<noteq> []"
  shows "replaceAll rs f prev (m @ r) = f m @ replaceAll rs f (Some (last m)) r"
proof -
  from assms have "rx_find rs prev (m @ r) = Some ([], m, drop (length m) (m @ r))"
    by (cases m) auto
  then have "rx_find rs prev (m @ r) = Some ([], m, r)"
    by simp
  with assms(2) show ?thesis
    by (simp add: replaceAll.simps [of rs f prev "m @ r"])
qed

lemma replaceAll_skip:
  assumes "\<not> at_bol prev \<or> \<not> prefix ''version:'' (l @ rest)" and "CHR 0x0A \<notin> set l"
  shows "replaceAll version_pattern f prev (l @ rest)
           = l @ replaceAll version_pattern f (if l = [] then prev else Some (last l)) rest"
  using assms
proof (induction l arbitrary: prev)
  case Nil
  then show ?case by simp
next
  case (Cons a l)
  have "rx_match version_pattern prev (a # l @ rest) = None"
  proof (cases "rx_match version_pattern prev (a # l @ rest)")
    case (Some m)
    from version_match_start [OF Some] Cons.prems(1) show ?thesis
      by (auto simp: at_bol_def)
  qed simp
  then have "replaceAll version_pattern f prev ((a # l) @ rest)
             = a # replaceAll version_pattern f (Some a) (l @ rest)"
    by (simp add: replaceAll_step)
  moreover have "\<not> at_bol (Some a)" using Cons.prems(2) by (auto simp: at_bol_def)
  then have "replaceAll version_pattern f (Some a) (l @ rest)
             = l @ replaceAll version_pattern f (if l = [] then Some a else Some (last l)) rest"
    using Cons.prems(2) by (intro Cons.IH) auto
  ultimately show ?case by simp
qed

lemma replaceAll_lines:
  assumes "\<forall>l\<in>set ls. CHR 0x0A \<notin> set l"
    and "\<forall>l\<in>set ls. prefix ''version:'' l \<longrightarrow> has_value l"
    and "at_bol prev" and "ls \<noteq> []"
  shows "replaceAll version_pattern f prev (join_lines ls)
           = join_lines (map (\<lambda>l. if prefix ''version:'' l then f l else l) ls)"
  using assms
proof (induction ls arbitrary: prev rule: join_lines.induct)
  case 1
  then show ?case by simp
next
  case (2 l)
  show ?case
  proof (cases "prefix ''version:'' l")
    case True
    with 2 have "rx_match version_pattern prev (l @ []) = Some l"
      by (intro version_line_match) auto
    moreover from True have "l \<noteq> []" by auto
    ultimately have "replaceAll version_pattern f prev (l @ []) = f l @ replaceAll version_pattern f (Some (last l)) []"
      by (rule replaceAll_match)
    moreover have "replaceAll version_pattern f (Some (last l)) [] = []"
      using version_match_start [of "Some (last l)" "[]"]
      by (cases "rx_match version_pattern (Some (last l)) []")
         (auto simp: replaceAll.simps [of _ _ _ "[]"])
    ultimately show ?thesis using True by simp
  next
    case False
    with 2 have "replaceAll version_pattern f prev (l @ [])
           = l @ replaceAll version_pattern f (if l = [] then prev else Some (last l)) []"
      by (intro replaceAll_skip) auto
    moreover have "replaceAll version_pattern f q [] = []" for q
      using version_match_start [of q "[]"]
      by (cases "rx_match version_pattern q []") (auto simp: replaceAll.simps [of _ _ _ "[]"])
    ultimately show ?thesis using False by simp
  qed
next
  case (3 l l' ls)
  let ?rest = "CHR 0x0A # join_lines (l' # ls)"
  have nl: "CHR 0x0A \<notin> set l" using 3 by simp
  have IH: "replaceAll version_pattern f (Some (CHR 0x0A)) (join_lines (l' # ls))
              = join_lines (map (\<lambda>l. if prefix ''version:'' l then f l else l) (l' # ls))"
    using 3 by (intro "3.IH") (auto simp: at_bol_def)
  have after: "replaceAll version_pattern f q ?rest
                 = CHR 0x0A # replaceAll version_pattern f (Some (CHR 0x0A)) (join_lines (l' # ls))"
    if "\<not> at_bol q \<or> True" for q
  proof -
    have "rx_match version_pattern q ?rest = None"
      using version_match_start [of q ?rest]
      by (cases "rx_match version_pattern q ?rest") auto
    then show ?thesis by (rule replaceAll_step)
  qed
  show ?case
  proof (cases "prefix ''version:'' l")
    case True
    with 3 nl have "rx_match version_pattern prev (l @ ?rest) = Some l"
      by (intro version_line_match) auto
    moreover from True have "l \<noteq> []" by auto
    ultimately have "replaceAll version_pattern f prev (l @ ?rest)
        = f l @ replaceAll version_pattern f (Some (last l)) ?rest"
      by (rule replaceAll_match)
    with after IH True show ?thesis by simp
  next
    case False
    have "\<not> prefix ''version:'' (l @ ?rest)"
    proof
      assume p: "prefix ''version:'' (l @ ?rest)"
      have "hd (lines_of (l @ ?rest)) = l"
        using nl by (simp add: lines_of_first)
      with prefix_first_line [OF p] False show False by simp
    qed
    with nl have "replaceAll version_pattern f prev (l @ ?rest)
           = l @ replaceAll version_pattern f (if l = [] then prev else Some (last l)) ?rest"
      by (intro replaceAll_skip) auto
    with after IH False show ?thesis by simp
  qed
qed

lemma UpdateVersion_spliced:
  assumes "fs path = Some data"
    and "Match version_pattern data"
    and "\<not> write_denied h path"
    and "CHR ''$'' \<notin> set version"
  shows "UpdateVersion h path version fs
           = (None, fs(path \<mapsto> spliced (\<lambda>m. ''version: '' @ version)
                                   (all_matches version_pattern None data) data))
       \<and> data = spliced (\<lambda>m. m) (all_matches version_pattern None data) data
       \<and> all_matches version_pattern None data \<noteq> []
       \<and> (\<forall>(p, m, r) \<in> set (all_matches version_pattern None data).
            prefix ''version:'' m \<and> (r = [] \<or> hd r = CHR 0x0A))"
proof -
  have tmpl: "expand (unicode_name_rune h) (''version: '' @ version) = (\<lambda>m. ''version: '' @ version)"
    using assms(4) by (intro ext expand_no_dollar) simp
  have 1: "UpdateVersion h path version fs
           = (None, fs(path \<mapsto> spliced (\<lambda>m. ''version: '' @ version)
                                   (all_matches version_pattern None data) data))"
    using assms(1-3) unfolding UpdateVersion_def ReadFile_def WriteFile_def ReplaceAll_def tmpl
    by (simp add: replaceAll_spliced)
  have 2: "data = spliced (\<lambda>m. m) (all_matches version_pattern None data) data"
    by (simp add: spliced_same)
  have 3: "all_matches version_pattern None data \<noteq> []"
    using assms(2)
    by (auto simp: Match_def all_matches.simps [of version_pattern None data] split: if_splits)
  have 4: "\<forall>(p, m, r) \<in> set (all_matches version_pattern None data).
            prefix ''version:'' m \<and> (r = [] \<or> hd r = CHR 0x0A)"
    using all_matches_found version_find by fast
  from 1 2 3 4 show ?thesis by blast
qed

lemma Match_version_line:
  assumes "Match version_pattern data"
  shows "\<exists>l\<in>set (lines_of data). prefix ''version:'' l"
proof (rule ccontr)
  assume "\<not> (\<exists>l\<in>set (lines_of data). prefix ''version:'' l)"
  then have "rx_find version_pattern None data = None"
    by (intro no_version_find) (simp add: at_bol_def)
  with assms show False by (simp add: Match_def)
qed

subsection \<open>Rewriting the version line\<close>

text \<open>
  Claim C1 says that \<^verbatim>\<open>UpdateVersion\<close> rewrites only the lines that start with
  \<^verbatim>\<open>version:\<close> and leaves every other line as it was, comments and blank lines
  included. The class \<^verbatim>\<open>\s\<close> of the pattern contains the line feed, so when nothing but
  white space follows \<^verbatim>\<open>version:\<close> on its line, \<^verbatim>\<open>\s*\<close> runs over the end of the line
  and \<^verbatim>\<open>.+\<close> takes the next non-empty line into the match. On the manifest below, whose
  second line is a comment, the call succeeds and writes a file without that comment: the
  line that does not start with \<^verbatim>\<open>version:\<close> is lost.
\<close>

theorem UpdateVersion_swallows_next_line:
  "lines_of manifest_b = [''version:'', ''# the package version'', ''name: p'', '''']
   \<and> fst (UpdateVersion (plain_host sample_pubspec all_pass) ''pubspec.yaml'' ''2.0.0''
            [''pubspec.yaml'' \<mapsto> manifest_b]) = None
   \<and> snd (UpdateVersion (plain_host sample_pubspec all_pass) ''pubspec.yaml'' ''2.0.0''
            [''pubspec.yaml'' \<mapsto> manifest_b]) ''pubspec.yaml''
       = Some ''version: 2.0.0\<newline>name: p\<newline>''
   \<and> lines_of ''version: 2.0.0\<newline>name: p\<newline>'' = [''version: 2.0.0'', ''name: p'', '''']"
proof -
  have 1: "lines_of manifest_b = [''version:'', ''# the package version'', ''name: p'', '''']"
    by code_simp
  have 2: "fst (UpdateVersion (plain_host sample_pubspec all_pass) ''pubspec.yaml'' ''2.0.0''
            [''pubspec.yaml'' \<mapsto> manifest_b]) = None"
    by code_simp
  have 3: "snd (UpdateVersion (plain_host sample_pubspec all_pass) ''pubspec.yaml'' ''2.0.0''
            [''pubspec.yaml'' \<mapsto> manifest_b]) ''pubspec.yaml''
       = Some ''version: 2.0.0\<newline>name: p\<newline>''"
    by code_simp
  have 4: "lines_of ''version: 2.0.0\<newline>name: p\<newline>'' = [''version: 2.0.0'', ''name: p'', '''']"
    by code_simp
  from 1 2 3 4 show ?thesis by blast
qed

text \<open>
  Where every line that starts with \<^verbatim>\<open>version:\<close> has a value on the same line, the
  rewriting is line by line, as the specification describes it: for a new version without a
  dollar sign, each such line becomes \<^verbatim>\<open>version: \<close> followed by the new version and
  every other line stays as it is, byte for byte.
\<close>

theorem UpdateVersion_line_by_line:
  assumes "fs path = Some data"
    and "\<not> write_denied h path"
    and "CHR ''$'' \<notin> set version"
    and "\<exists>l\<in>set (lines_of data). prefix ''version:'' l"
    and "\<forall>l\<in>set (lines_of data). prefix ''version:'' l \<longrightarrow> has_value l"
  shows "UpdateVersion h path version fs
           = (None, fs(path \<mapsto> join_lines (map (rewrite_line version) (lines_of data))))"
proof -
  let ?f = "expand (unicode_name_rune h) (''version: '' @ version)"
  have tmpl: "?f = (\<lambda>m. ''version: '' @ version)"
    using assms(3) by (intro ext expand_no_dollar) simp
  have "replaceAll version_pattern ?f None (join_lines (lines_of data))
          = join_lines (map (\<lambda>l. if prefix ''version:'' l then ?f l else l) (lines_of data))"
    using assms(5) lines_of_nonempty [of data]
    by (intro replaceAll_lines) (auto simp: at_bol_def dest: lines_of_no_nl)
  then have r: "ReplaceAll (unicode_name_rune h) version_pattern data (''version: '' @ version)
          = join_lines (map (rewrite_line version) (lines_of data))"
    unfolding ReplaceAll_def tmpl by (simp add: join_lines_of rewrite_line_def [abs_def])
  have m: "Match version_pattern data"
  proof (rule ccontr)
    assume "\<not> Match version_pattern data"
    then have "rx_find version_pattern None data = None"
      unfolding Match_def by blast
    then have "replaceAll version_pattern (\<lambda>m. []) None data = data"
      by (simp add: replaceAll.simps [of _ _ None data])
    moreover have "replaceAll version_pattern (\<lambda>m. []) None (join_lines (lines_of data))
          = join_lines (map (\<lambda>l. if prefix ''version:'' l then [] else l) (lines_of data))"
      using assms(5) lines_of_nonempty [of data]
      by (intro replaceAll_lines) (auto simp: at_bol_def dest: lines_of_no_nl)
    ultimately have "join_lines (map (\<lambda>l. if prefix ''version:'' l then [] else l) (lines_of data))
        = join_lines (lines_of data)"
      by (simp add: join_lines_of)
    moreover have shorter: "length (join_lines (map (\<lambda>l. if prefix ''version:'' l then [] else l) ls))
        < length (join_lines ls)" if "\<exists>l\<in>set ls. prefix ''version:'' l" for ls
      using that
    proof (induction ls rule: join_lines.induct)
      case (3 l l' ls)
      have le: "length (join_lines (map (\<lambda>l. if prefix ''version:'' l then [] else l) ks))
                  \<le> length (join_lines ks)" for ks
        by (induction ks rule: join_lines.induct) auto
      from 3 le [of "l' # ls"] show ?case by (cases "prefix ''version:'' l") (auto simp: prefix_def)
    qed (auto simp: prefix_def)
    ultimately show False using assms(4) by fastforce
  qed
  from assms(1,2) m r show ?thesis
    by (simp add: UpdateVersion_def ReadFile_def WriteFile_def)
qed

text \<open>
  Claim C2: when no line of the manifest starts with \<^verbatim>\<open>version:\<close> at column zero (an
  indented \<^verbatim>\<open>version:\<close> does not count), \<^verbatim>\<open>UpdateVersion\<close> returns the error
  \<^verbatim>\<open>version field not found in pubspec.yaml\<close> and the files are what they were: nothing
  is written.
\<close>

theorem UpdateVersion_no_version_line:
  assumes "fs path = Some data"
    and "\<forall>l\<in>set (lines_of data). \<not> prefix ''version:'' l"
  shows "UpdateVersion h path version fs
           = (Some (Errorf ''version field not found in pubspec.yaml''), fs)"
proof -
  have "rx_find version_pattern None data = None"
    using assms(2) by (intro no_version_find) (simp add: at_bol_def)
  with assms(1) show ?thesis
    by (simp add: UpdateVersion_def ReadFile_def Match_def)
qed

theorem UpdateVersion_no_version_line_witness:
  "[''pubspec.yaml'' \<mapsto> manifest_c] ''pubspec.yaml'' = Some manifest_c
   \<and> lines_of manifest_c = [''name: p'', ''  version: 1.0.0'', '''']
   \<and> UpdateVersion (plain_host sample_pubspec all_pass) ''pubspec.yaml'' ''2.0.0''
        [''pubspec.yaml'' \<mapsto> manifest_c]
       = (Some (Errorf ''version field not found in pubspec.yaml''), [''pubspec.yaml'' \<mapsto> manifest_c])"
proof -
  have f: "[''pubspec.yaml'' \<mapsto> manifest_c] ''pubspec.yaml'' = Some manifest_c" by simp
  have l: "lines_of manifest_c = [''name: p'', ''  version: 1.0.0'', '''']"
    by (simp add: manifest_c_def)
  have n: "\<forall>l\<in>set (lines_of manifest_c). \<not> prefix ''version:'' l"
    unfolding l by simp
  from UpdateVersion_no_version_line [where fs = "[''pubspec.yaml'' \<mapsto> manifest_c]"
      and path = "''pubspec.yaml''" and data = manifest_c, OF f n] f l n
  show ?thesis by blast
qed

text \<open>
  Claim C10: for a new version without a dollar sign, \<^verbatim>\<open>UpdateVersion\<close> succeeds on a
  readable, writable manifest that has a match and writes the text in which every match is
  replaced by exactly \<^verbatim>\<open>version: \<close> followed by the new version. Every match begins
  with \<^verbatim>\<open>version:\<close> and ends where a line ends (a line feed or the end of the text
  follows), so the spacing after the colon and whatever else stood on the line are gone.
  When every line that starts with \<^verbatim>\<open>version:\<close> has a value, the matches are these
  lines, and each of them, whatever it held, becomes the same line \<^verbatim>\<open>version: \<close> plus the
  new version. With a dollar sign the template is expanded: for the new version
  \<^verbatim>\<open>2.0.0-$1\<close> the line written is \<^verbatim>\<open>version: 2.0.0-\<close>, since the pattern has no
  group 1.
\<close>

theorem UpdateVersion_writes_template:
  assumes "fs path = Some data"
    and "Match version_pattern data"
    and "\<not> write_denied h path"
    and "CHR ''$'' \<notin> set version"
  shows "UpdateVersion h path version fs
           = (None, fs(path \<mapsto> spliced (\<lambda>m. ''version: '' @ version)
                                   (all_matches version_pattern None data) data))
       \<and> data = spliced (\<lambda>m. m) (all_matches version_pattern None data) data
       \<and> all_matches version_pattern None data \<noteq> []
       \<and> (\<forall>(p, m, r) \<in> set (all_matches version_pattern None data).
            prefix ''version:'' m \<and> (r = [] \<or> hd r = CHR 0x0A))
       \<and> ((\<forall>l\<in>set (lines_of data). prefix ''version:'' l \<longrightarrow> has_value l) \<longrightarrow>
            UpdateVersion h path version fs
              = (None, fs(path \<mapsto> join_lines (map (rewrite_line version) (lines_of data)))))
       \<and> snd (UpdateVersion (plain_host sample_pubspec all_pass) ''pubspec.yaml'' ''2.0.0-$1''
              [''pubspec.yaml'' \<mapsto> ''version: 1.0.0\<newline>'']) ''pubspec.yaml''
           = Some ''version: 2.0.0-\<newline>''"
proof -
  note a = UpdateVersion_spliced [where fs = fs and path = path and data = data, OF assms]
  have b: "(\<forall>l\<in>set (lines_of data). prefix ''version:'' l \<longrightarrow> has_value l) \<longrightarrow>
            UpdateVersion h path version fs
              = (None, fs(path \<mapsto> join_lines (map (rewrite_line version) (lines_of data))))"
    using UpdateVersion_line_by_line [where fs = fs and path = path and data = data,
        OF assms(1,3,4) Match_version_line [OF assms(2)]]
    by blast
  have c: "snd (UpdateVersion (plain_host sample_pubspec all_pass) ''pubspec.yaml'' ''2.0.0-$1''
              [''pubspec.yaml'' \<mapsto> ''version: 1.0.0\<newline>'']) ''pubspec.yaml''
           = Some ''version: 2.0.0-\<newline>''"
    by code_simp
  from a b c show ?thesis by blast
qed

theorem UpdateVersion_writes_template_witness:
  "[''pubspec.yaml'' \<mapsto> manifest_a] ''pubspec.yaml'' = Some manifest_a
   \<and> Match version_pattern manifest_a
   \<and> \<not> write_denied (plain_host sample_pubspec all_pass) ''pubspec.yaml''
   \<and> CHR ''$'' \<notin> set ''2.0.0''
   \<and> lines_of manifest_a
       = [''name: p'', ''# the package version'', ''version:   1.0.0 # stable'',
          ''description: d'', []]
   \<and> has_value ''version:   1.0.0 # stable''
   \<and> all_matches version_pattern None manifest_a
       = [(''name: p\<newline># the package version\<newline>'', ''version:   1.0.0 # stable'',
           ''\<newline>description: d\<newline>'')]
   \<and> join_lines (map (rewrite_line ''2.0.0'') (lines_of manifest_a))
       = ''name: p\<newline># the package version\<newline>version: 2.0.0\<newline>description: d\<newline>''
   \<and> UpdateVersion (plain_host sample_pubspec all_pass) ''pubspec.yaml'' ''2.0.0''
        [''pubspec.yaml'' \<mapsto> manifest_a]
       = (None, [''pubspec.yaml'' \<mapsto>
                   ''name: p\<newline># the package version\<newline>version: 2.0.0\<newline>description: d\<newline>''])"
proof -
  have f: "[''pubspec.yaml'' \<mapsto> manifest_a] ''pubspec.yaml'' = Some manifest_a" by simp
  have m: "Match version_pattern manifest_a" by code_simp
  have d: "\<not> write_denied (plain_host sample_pubspec all_pass) ''pubspec.yaml''"
    by (simp add: plain_host_def)
  have v: "CHR ''$'' \<notin> set ''2.0.0''" by simp
  have l: "lines_of manifest_a
       = [''name: p'', ''# the package version'', ''version:   1.0.0 # stable'',
          ''description: d'', []]"
    by code_simp
  have hv: "has_value ''version:   1.0.0 # stable''"
    by (simp add: has_value_def)
  have vals: "\<forall>l\<in>set (lines_of manifest_a). prefix ''version:'' l \<longrightarrow> has_value l"
    unfolding l using hv by simp
  have a: "all_matches version_pattern None manifest_a
             = [(''name: p\<newline># the package version\<newline>'', ''version:   1.0.0 # stable'',
                 ''\<newline>description: d\<newline>'')]"
    by code_simp
  have j: "join_lines (map (rewrite_line ''2.0.0'') (lines_of manifest_a))
       = ''name: p\<newline># the package version\<newline>version: 2.0.0\<newline>description: d\<newline>''"
    unfolding l by (simp add: rewrite_line_def)
  note T = UpdateVersion_writes_template [where fs = "[''pubspec.yaml'' \<mapsto> manifest_a]"
      and path = "''pubspec.yaml''" and data = manifest_a, OF f m d v]
  have r: "UpdateVersion (plain_host sample_pubspec all_pass) ''pubspec.yaml'' ''2.0.0''
        [''pubspec.yaml'' \<mapsto> manifest_a]
       = (None, [''pubspec.yaml'' \<mapsto>
                   ''name: p\<newline># the package version\<newline>version: 2.0.0\<newline>description: d\<newline>''])"
  proof -
    from T have "(\<forall>l\<in>set (lines_of manifest_a). prefix ''version:'' l \<longrightarrow> has_value l) \<longrightarrow>
        UpdateVersion (plain_host sample_pubspec all_pass) ''pubspec.yaml'' ''2.0.0''
          [''pubspec.yaml'' \<mapsto> manifest_a]
        = (None, [''pubspec.yaml'' \<mapsto> manifest_a](''pubspec.yaml'' \<mapsto>
             join_lines (map (rewrite_line ''2.0.0'') (lines_of manifest_a))))"
      by blast
    with vals show ?thesis by (simp add: j)
  qed
  from f m d v l hv a j r show ?thesis by blast
qed

subsection \<open>Validation\<close>

text \<open>
  Claim C5: \<^verbatim>\<open>ValidatePubspec\<close> reports the error of the first violated rule in the
  order name, version, description present, description at least 60, description at most
  180, environment present, SDK entry non-empty, and nothing when no rule is violated; its
  result holds at most one error. When name and version are both empty the error is the
  one of the name rule (its message reads \<^verbatim>\<open>package name is required\<close>), and with an
  empty name it is never the version error.
\<close>

theorem ValidatePubspec_first_violation:
  "ValidatePubspec p = first_violation p
   \<and> (Name p = [] \<and> Version p = [] \<longrightarrow> ValidatePubspec p = Some (Errorf ''package name is required''))
   \<and> (Name p = [] \<longrightarrow> ValidatePubspec p \<noteq> Some (Errorf ''version is required''))"
  by (simp add: ValidatePubspec_def first_violation_def validation_rules_def split: option.split)

theorem ValidatePubspec_first_violation_witness:
  "Name (sample_pubspec\<lparr>Name := [], Version := []\<rparr>) = []
   \<and> Version (sample_pubspec\<lparr>Name := [], Version := []\<rparr>) = []
   \<and> ValidatePubspec (sample_pubspec\<lparr>Name := [], Version := []\<rparr>) = Some (Errorf ''package name is required'')
   \<and> first_violation (sample_pubspec\<lparr>Name := [], Version := []\<rparr>) = Some (Errorf ''package name is required'')"
  using ValidatePubspec_first_violation [of "sample_pubspec\<lparr>Name := [], Version := []\<rparr>"]
  by (simp add: sample_pubspec_def first_violation_def validation_rules_def)

text \<open>
  The bounds of the description, in the unit the code measures: \<^verbatim>\<open>len\<close> of a Go
  string counts bytes.
\<close>

lemma ValidatePubspec_description_bytes:
  assumes "Name p \<noteq> []" "Version p \<noteq> []" "go_lookup (Environment p) ''sdk'' = Some sdk" "sdk \<noteq> []"
  shows "(length (Description p) = 60 \<longrightarrow> ValidatePubspec p = None)
       \<and> (length (Description p) = 180 \<longrightarrow> ValidatePubspec p = None)
       \<and> (length (Description p) = 59 \<longrightarrow> ValidatePubspec p
            = Some (Errorf ''description should be at least 60 characters (currently 59)''))
       \<and> (length (Description p) = 181 \<longrightarrow> ValidatePubspec p
            = Some (Errorf ''description should be at most 180 characters (currently 181)''))"
  using assms by (auto simp: ValidatePubspec_def go_lookup_def Itoa_59 Itoa_181 split: option.splits)

text \<open>
  Claim C6 states the bounds in characters: 60 and 180 characters pass, 59 and 181 are
  rejected. The messages of the code speak of characters too, but the number compared and
  printed is the byte length. A description of 59 letters U+00E9 has 59 characters and 118
  bytes and is accepted; one of 100 such letters has 100 characters, within the bounds,
  and is rejected as having 200.
\<close>

theorem ValidatePubspec_counts_bytes:
  "utf8_characters (concat (replicate 59 e_acute)) = 59
   \<and> length (concat (replicate 59 e_acute)) = 118
   \<and> ValidatePubspec (sample_pubspec\<lparr>Description := concat (replicate 59 e_acute)\<rparr>) = None
   \<and> utf8_characters (concat (replicate 100 e_acute)) = 100
   \<and> ValidatePubspec (sample_pubspec\<lparr>Description := concat (replicate 100 e_acute)\<rparr>)
       = Some (Errorf ''description should be at most 180 characters (currently 200)'')"
proof -
  have i: "Itoa 200 = ''200''" by code_simp
  have n: "concat (replicate 59 e_acute) \<noteq> []" "concat (replicate 100 e_acute) \<noteq> []"
    using length_replicate_e [of 59] length_replicate_e [of 100] by auto
  show ?thesis
    using n by (simp add: utf8_characters_replicate length_replicate_e ValidatePubspec_def
        sample_pubspec_def go_lookup_def i del: concat_eq_Nil_conv)
qed

text \<open>
  Claim C9: \<^verbatim>\<open>IsFlutterPackage\<close> holds exactly when the dependencies have the key
  \<^verbatim>\<open>flutter\<close> or the \<^verbatim>\<open>flutter\<close> section is a non-empty map; either alone is enough,
  and with neither the result is false.
\<close>

theorem IsFlutterPackage_iff:
  "(IsFlutterPackage p \<longleftrightarrow>
      (\<exists>v. go_lookup (Dependencies p) ''flutter'' = Some v) \<or> (\<exists>f. Flutter p = Some f \<and> f \<noteq> fmempty))
   \<and> (go_lookup (Dependencies p) ''flutter'' = Some v \<longrightarrow> IsFlutterPackage p)
   \<and> (0 < go_len (Flutter p) \<longrightarrow> IsFlutterPackage p)
   \<and> (go_lookup (Dependencies p) ''flutter'' = None \<and> go_len (Flutter p) = 0 \<longrightarrow> \<not> IsFlutterPackage p)"
  using go_len_pos [of "Flutter p"] by (auto simp: IsFlutterPackage_def)

theorem IsFlutterPackage_iff_witness:
  "go_lookup (Dependencies flutter_pubspec) ''flutter'' = Some (AnyMap [(''sdk'', AnyString ''flutter'')])
   \<and> go_len (Flutter flutter_pubspec) = 0
   \<and> IsFlutterPackage flutter_pubspec
   \<and> go_lookup (Dependencies sample_pubspec) ''flutter'' = None
   \<and> go_len (Flutter sample_pubspec) = 0
   \<and> \<not> IsFlutterPackage sample_pubspec
   \<and> go_lookup (Dependencies (sample_pubspec\<lparr>Flutter := Some (fmupd ''uses-material-design'' (AnyBool True) fmempty)\<rparr>)) ''flutter'' = None
   \<and> 0 < go_len (Flutter (sample_pubspec\<lparr>Flutter := Some (fmupd ''uses-material-design'' (AnyBool True) fmempty)\<rparr>))
   \<and> IsFlutterPackage (sample_pubspec\<lparr>Flutter := Some (fmupd ''uses-material-design'' (AnyBool True) fmempty)\<rparr>)"
  using IsFlutterPackage_iff [of flutter_pubspec "AnyMap [(''sdk'', AnyString ''flutter'')]"]
    IsFlutterPackage_iff [of sample_pubspec]
    IsFlutterPackage_iff [of "sample_pubspec\<lparr>Flutter := Some (fmupd ''uses-material-design'' (AnyBool True) fmempty)\<rparr>"]
  by (simp add: flutter_pubspec_def sample_pubspec_def go_lookup_def go_len_pos go_len_None)

subsection \<open>Credentials\<close>

text \<open>
  Claim C7: credentials with expiration 0 are never expired; otherwise they are expired
  exactly when the current time is greater than the expiration; they are valid exactly
  when the access token is non-empty and they are not expired. So expired credentials are
  invalid whatever the token, and an empty token is invalid whatever the expiration.
\<close>

theorem credentials_expiry:
  "(Expiration c = 0 \<longrightarrow> \<not> IsExpired now c)
   \<and> (Expiration c \<noteq> 0 \<longrightarrow> (IsExpired now c \<longleftrightarrow> sint (Expiration c) < sint now))
   \<and> (IsValid now c \<longleftrightarrow> AccessToken c \<noteq> [] \<and> \<not> IsExpired now c)
   \<and> (IsExpired now c \<longrightarrow> \<not> IsValid now c)
   \<and> (AccessToken c = [] \<longrightarrow> \<not> IsValid now c)"
  by (simp add: IsExpired_def IsValid_def word_sless_alt)

theorem credentials_expiry_witness:
  "Expiration sample_creds \<noteq> 0
   \<and> sint (Expiration sample_creds) < sint (2000 :: 64 word)
   \<and> IsExpired 2000 sample_creds
   \<and> AccessToken sample_creds \<noteq> []
   \<and> \<not> IsValid 2000 sample_creds
   \<and> \<not> IsExpired 500 sample_creds
   \<and> IsValid 500 sample_creds
   \<and> Expiration (CreateCredentialsFromToken ''token'') = 0
   \<and> \<not> IsExpired 2000 (CreateCredentialsFromToken ''token'')
   \<and> AccessToken (CreateCredentialsFromToken []) = []
   \<and> \<not> IsValid 2000 (CreateCredentialsFromToken [])"
  using credentials_expiry [of sample_creds 2000] credentials_expiry [of sample_creds 500]
    credentials_expiry [of "CreateCredentialsFromToken ''token''" 2000]
    credentials_expiry [of "CreateCredentialsFromToken []" 2000]
  by (simp add: sample_creds_def CreateCredentialsFromToken_def)

subsection \<open>The pre-publish hook\<close>

text \<open>
  Claim C3, as amended: when \<^verbatim>\<open>ParsePubspec\<close> accepts the manifest, the pre-publish hook
  in dry-run mode succeeds whatever steps are enabled, changes no file and starts no
  external process. Its message is the fixed text \<^verbatim>\<open>Package validated successfully\<close>, the
  one a real run returns; that the steps were simulated is said in the log only, by a
  \<^verbatim>\<open>[DRY-RUN]\<close> line for each enabled step. A dry run that does not succeed has failed to
  load or parse the manifest.
\<close>

theorem executePrePublish_dry_run:
  assumes dry: "dry_run cfg"
    and res: "res = executePrePublish h version cfg w"
  shows
    "(ParsePubspec h (files w) (pubspecPath cfg) = Inr pubspec \<longrightarrow>
        fst res = \<lparr>Success = True, Message = ''Package validated successfully''\<rparr>
        \<and> files (snd res) = files w
        \<and> executed (snd res) = executed w
        \<and> logged (snd res) = logged w
            @ (if update_version cfg
               then [''Updating version in pubspec.yaml'', ''[DRY-RUN] Would update version'']
               else [])
            @ (if analyze cfg
               then [''Running dart analyze'', ''[DRY-RUN] Would run dart analyze''] else [])
            @ (if format_check cfg
               then [''Checking code formatting'', ''[DRY-RUN] Would check code formatting'']
               else [])
            @ (if test cfg then [''Running tests'', ''[DRY-RUN] Would run tests''] else [])
            @ (if dry_run_validate cfg
               then [''Running publish dry-run validation'',
                     ''[DRY-RUN] Would run dart pub publish --dry-run'']
               else [])
            @ [''PrePublish completed successfully''])
   \<and> (\<not> Success (fst res) \<longrightarrow>
        (\<exists>err. ParsePubspec h (files w) (pubspecPath cfg) = Inl err
               \<and> fst res = failure ''Failed to parse pubspec.yaml: '' err \<and> snd res = w))"
proof (cases "ParsePubspec h (files w) (pubspecPath cfg)")
  case (Inl err)
  with res show ?thesis
    by (simp add: executePrePublish_def failure_def)
next
  case (Inr p)
  with res dry show ?thesis
    by (simp add: executePrePublish_def Let_def pre_update_version_dry pre_analyze_dry
        pre_format_check_dry pre_test_dry pre_dry_run_validate_dry Info_def)
qed

theorem executePrePublish_dry_run_witness:
  "dry_run (all_gates True)
   \<and> ParsePubspec (plain_host sample_pubspec all_pass) (files world_s) (pubspecPath (all_gates True))
       = Inr sample_pubspec
   \<and> fst (executePrePublish (plain_host sample_pubspec all_pass) ''2.0.0'' (all_gates True) world_s)
       = \<lparr>Success = True, Message = ''Package validated successfully''\<rparr>
   \<and> files (snd (executePrePublish (plain_host sample_pubspec all_pass) ''2.0.0'' (all_gates True) world_s))
       = files world_s
   \<and> executed (snd (executePrePublish (plain_host sample_pubspec all_pass) ''2.0.0'' (all_gates True) world_s))
       = []
   \<and> logged (snd (executePrePublish (plain_host sample_pubspec all_pass) ''2.0.0'' (all_gates True) world_s))
       = [''Updating version in pubspec.yaml'', ''[DRY-RUN] Would update version'',
          ''Running dart analyze'', ''[DRY-RUN] Would run dart analyze'',
          ''Checking code formatting'', ''[DRY-RUN] Would check code formatting'',
          ''Running tests'', ''[DRY-RUN] Would run tests'',
          ''Running publish dry-run validation'', ''[DRY-RUN] Would run dart pub publish --dry-run'',
          ''PrePublish completed successfully'']
   \<and> \<not> Success (fst (executePrePublish (plain_host sample_pubspec all_pass) ''2.0.0''
                        (all_gates True) world_e))
   \<and> fst (executePrePublish (plain_host sample_pubspec all_pass) ''2.0.0'' (all_gates True) world_e)
       = \<lparr>Success = False,
          Message = ''Failed to parse pubspec.yaml: failed to read pubspec.yaml: open pubspec.yaml: no such file or directory''\<rparr>
   \<and> snd (executePrePublish (plain_host sample_pubspec all_pass) ''2.0.0'' (all_gates True) world_e)
       = world_e"
proof -
  let ?h = "plain_host sample_pubspec all_pass"
  have d: "dry_run (all_gates True)" by (simp add: all_gates_def)
  have pp: "pubspecPath (all_gates True) = ''pubspec.yaml''"
    by (simp add: pubspecPath_def all_gates_def)
  have g: "update_version (all_gates True)" "analyze (all_gates True)" "format_check (all_gates True)"
    "test (all_gates True)" "dry_run_validate (all_gates True)"
    by (simp_all add: all_gates_def)
  have w: "executed world_s = []" "logged world_s = []" by (simp_all add: world_s_def)
  have pe: "ParsePubspec ?h (files world_e) ''pubspec.yaml''
      = Inl (Errorf ''failed to read pubspec.yaml: open pubspec.yaml: no such file or directory'')"
    by (simp add: ParsePubspec_def ReadFile_def world_e_def)
  have ne: "\<not> Success (fst (executePrePublish ?h ''2.0.0'' (all_gates True) world_e))"
    by (simp add: executePrePublish_def pp pe)
  note ok = executePrePublish_dry_run [where cfg = "all_gates True" and h = ?h
      and version = "''2.0.0''" and w = world_s and pubspec = sample_pubspec, OF d refl]
  note bad = executePrePublish_dry_run [where cfg = "all_gates True" and h = ?h
      and version = "''2.0.0''" and w = world_e and pubspec = sample_pubspec, OF d refl]
  have 1: "fst (executePrePublish ?h ''2.0.0'' (all_gates True) world_s)
       = \<lparr>Success = True, Message = ''Package validated successfully''\<rparr>
    \<and> files (snd (executePrePublish ?h ''2.0.0'' (all_gates True) world_s)) = files world_s
    \<and> executed (snd (executePrePublish ?h ''2.0.0'' (all_gates True) world_s)) = []
    \<and> logged (snd (executePrePublish ?h ''2.0.0'' (all_gates True) world_s))
       = [''Updating version in pubspec.yaml'', ''[DRY-RUN] Would update version'',
          ''Running dart analyze'', ''[DRY-RUN] Would run dart analyze'',
          ''Checking code formatting'', ''[DRY-RUN] Would check code formatting'',
          ''Running tests'', ''[DRY-RUN] Would run tests'',
          ''Running publish dry-run validation'', ''[DRY-RUN] Would run dart pub publish --dry-run'',
          ''PrePublish completed successfully'']"
    using ok g w by (simp add: pp parse_s)
  have 2: "fst (executePrePublish ?h ''2.0.0'' (all_gates True) world_e)
       = \<lparr>Success = False,
          Message = ''Failed to parse pubspec.yaml: failed to read pubspec.yaml: open pubspec.yaml: no such file or directory''\<rparr>
    \<and> snd (executePrePublish ?h ''2.0.0'' (all_gates True) world_e) = world_e"
    using bad ne by (auto simp: pp pe failure_def)
  have p: "ParsePubspec ?h (files world_s) (pubspecPath (all_gates True)) = Inr sample_pubspec"
    by (simp add: pp parse_s)
  from d p 1 2 ne show ?thesis by blast
qed

text \<open>
  Claim C3 as stated also says that the returned message indicates that the steps were
  simulated. On the manifest of scenario A with every step enabled, the dry run (no
  process started) and the real run (four processes started) return the same response.
\<close>

theorem executePrePublish_dry_run_message_counterexample:
  "fst (executePrePublish (plain_host sample_pubspec all_pass) ''2.0.0'' (all_gates True) world_s)
     = \<lparr>Success = True, Message = ''Package validated successfully''\<rparr>
   \<and> executed (snd (executePrePublish (plain_host sample_pubspec all_pass) ''2.0.0''
                      (all_gates True) world_s)) = []
   \<and> fst (executePrePublish (plain_host sample_pubspec all_pass) ''2.0.0'' (all_gates False) world_s)
     = \<lparr>Success = True, Message = ''Package validated successfully''\<rparr>
   \<and> executed (snd (executePrePublish (plain_host sample_pubspec all_pass) ''2.0.0''
                      (all_gates False) world_s))
     = [analyze_cmd, format_cmd, test_cmd False (test_config (all_gates False)), publish_dry_run_cmd]"
proof -
  let ?h = "plain_host sample_pubspec all_pass"
  have d: "dry_run (all_gates True)" "\<not> dry_run (all_gates False)" by (simp_all add: all_gates_def)
  have pp: "pubspecPath (all_gates b) = ''pubspec.yaml''" for b
    by (simp add: pubspecPath_def all_gates_def)
  have g: "update_version (all_gates b)" "analyze (all_gates b)" "format_check (all_gates b)"
    "test (all_gates b)" "dry_run_validate (all_gates b)" for b
    by (simp_all add: all_gates_def)
  have w: "executed world_s = []" by (simp add: world_s_def)
  have dry: "fst (executePrePublish ?h ''2.0.0'' (all_gates True) world_s)
               = \<lparr>Success = True, Message = ''Package validated successfully''\<rparr>
             \<and> executed (snd (executePrePublish ?h ''2.0.0'' (all_gates True) world_s)) = []"
    by (simp add: executePrePublish_def Let_def pp parse_s d pre_update_version_dry pre_analyze_dry
        pre_format_check_dry pre_test_dry pre_dry_run_validate_dry Info_def w)
  have real: "fst (executePrePublish ?h ''2.0.0'' (all_gates False) world_s)
               = \<lparr>Success = True, Message = ''Package validated successfully''\<rparr>
             \<and> executed (snd (executePrePublish ?h ''2.0.0'' (all_gates False) world_s))
               = [analyze_cmd, format_cmd, test_cmd False (test_config (all_gates False)),
                  publish_dry_run_cmd]"
    by (simp add: executePrePublish_def Let_def pp parse_s pre_update_version_real [OF d(2)]
        pre_analyze_real [OF d(2)] pre_format_check_real [OF d(2)] pre_test_real [OF d(2)]
        pre_dry_run_validate_real [OF d(2)] g upd_s cmd_error_all_pass not_flutter_sample Info_def w)
  from dry real show ?thesis by blast
qed

text \<open>
  Claim C4: in a real run (not dry-run) the hook stops at the first step that fails. For
  each of the six steps: when the steps before it are disabled or succeed and the step
  fails with an error, the response is unsuccessful and its message is the label of that
  step followed by the message of the error; the processes started are those of the
  enabled steps up to the failing one and no later one; and the files are as the version
  update left them (\<open>kept\<close>), so a version already written stays written.
\<close>

theorem executePrePublish_fail_fast:
  assumes real: "\<not> dry_run cfg"
    and res: "res = executePrePublish h version cfg w"
    and upd: "upd = UpdateVersion h (pubspecPath cfg) version (files w)"
    and kept: "kept = (if update_version cfg then snd upd else files w)"
    and tc: "tcmd = test_cmd (IsFlutterPackage pubspec) (test_config cfg)"
  shows
    "(ParsePubspec h (files w) (pubspecPath cfg) = Inl err \<longrightarrow>
        fst res = failure ''Failed to parse pubspec.yaml: '' err \<and> snd res = w)
   \<and> (ParsePubspec h (files w) (pubspecPath cfg) = Inr pubspec \<and>
      update_version cfg \<and> fst upd = Some err \<longrightarrow>
        fst res = failure ''Failed to update version: '' err
        \<and> executed (snd res) = executed w \<and> files (snd res) = files w)
   \<and> (ParsePubspec h (files w) (pubspecPath cfg) = Inr pubspec \<and>
      (update_version cfg \<longrightarrow> fst upd = None) \<and>
      analyze cfg \<and> cmd_error h analyze_cmd = Some err \<longrightarrow>
        fst res = failure ''Analysis failed: '' err
        \<and> executed (snd res) = executed w @ [analyze_cmd] \<and> files (snd res) = kept)
   \<and> (ParsePubspec h (files w) (pubspecPath cfg) = Inr pubspec \<and>
      (update_version cfg \<longrightarrow> fst upd = None) \<and>
      (analyze cfg \<longrightarrow> cmd_error h analyze_cmd = None) \<and>
      format_check cfg \<and> cmd_error h format_cmd = Some err \<longrightarrow>
        fst res = failure ''Format check failed: '' err
        \<and> executed (snd res)
            = executed w @ (if analyze cfg then [analyze_cmd] else []) @ [format_cmd]
        \<and> files (snd res) = kept)
   \<and> (ParsePubspec h (files w) (pubspecPath cfg) = Inr pubspec \<and>
      (update_version cfg \<longrightarrow> fst upd = None) \<and>
      (analyze cfg \<longrightarrow> cmd_error h analyze_cmd = None) \<and>
      (format_check cfg \<longrightarrow> cmd_error h format_cmd = None) \<and>
      test cfg \<and> cmd_error h tcmd = Some err \<longrightarrow>
        fst res = failure (if IsFlutterPackage pubspec then ''Flutter tests failed: ''
                           else ''Tests failed: '') err
        \<and> executed (snd res)
            = executed w @ (if analyze cfg then [analyze_cmd] else [])
                @ (if format_check cfg then [format_cmd] else []) @ [tcmd]
        \<and> files (snd res) = kept)
   \<and> (ParsePubspec h (files w) (pubspecPath cfg) = Inr pubspec \<and>
      (update_version cfg \<longrightarrow> fst upd = None) \<and>
      (analyze cfg \<longrightarrow> cmd_error h analyze_cmd = None) \<and>
      (format_check cfg \<longrightarrow> cmd_error h format_cmd = None) \<and>
      (test cfg \<longrightarrow> cmd_error h tcmd = None) \<and>
      dry_run_validate cfg \<and> cmd_error h publish_dry_run_cmd = Some err \<longrightarrow>
        fst res = failure ''Dry-run validation failed: '' err
        \<and> executed (snd res)
            = executed w @ (if analyze cfg then [analyze_cmd] else [])
                @ (if format_check cfg then [format_cmd] else [])
                @ (if test cfg then [tcmd] else []) @ [publish_dry_run_cmd]
        \<and> files (snd res) = kept)"
proof -
  let ?D = "NewDartCLI ''.''"
  let ?F = "IsFlutterPackage pubspec"
  define tp where "tp = (if IsFlutterPackage pubspec then ''Flutter tests failed: ''
                           else ''Tests failed: '')"
  define W1 where "W1 = snd (pre_update_version h cfg (pubspecPath cfg) version w)"
  define W2 where "W2 = snd (pre_analyze h cfg ?D W1)"
  define W3 where "W3 = snd (pre_format_check h cfg ?D W2)"
  define W4 where "W4 = snd (pre_test h cfg ?D ?F W3)"
  define W5 where "W5 = snd (pre_dry_run_validate h cfg ?D W4)"
  have s1: "pre_update_version h cfg (pubspecPath cfg) version w
              = (if update_version cfg
                 then map_option (failure ''Failed to update version: '') (fst upd) else None, W1)"
    and x1: "executed W1 = executed w"
    and k1: "update_version cfg \<longrightarrow> files W1 = snd upd" "\<not> update_version cfg \<longrightarrow> files W1 = files w"
    unfolding W1_def upd by (simp_all add: pre_update_version_real [OF real])
  have s2: "pre_analyze h cfg ?D W1
              = (if analyze cfg then map_option (failure ''Analysis failed: '') (cmd_error h analyze_cmd)
                 else None, W2)"
    and x2: "executed W2 = executed W1 @ (if analyze cfg then [analyze_cmd] else [])"
    and k2: "files W2 = files W1"
    unfolding W2_def by (simp_all add: pre_analyze_real [OF real])
  have s3: "pre_format_check h cfg ?D W2
              = (if format_check cfg
                 then map_option (failure ''Format check failed: '') (cmd_error h format_cmd)
                 else None, W3)"
    and x3: "executed W3 = executed W2 @ (if format_check cfg then [format_cmd] else [])"
    and k3: "files W3 = files W2"
    unfolding W3_def by (simp_all add: pre_format_check_real [OF real])
  have s4: "pre_test h cfg ?D ?F W3
              = (if test cfg
                 then map_option (failure tp) (cmd_error h tcmd)
                 else None, W4)"
    and x4: "executed W4 = executed W3 @ (if test cfg then [tcmd] else [])"
    and k4: "files W4 = files W3"
    unfolding W4_def tc tp_def by (simp_all add: pre_test_real [OF real])
  have s5: "pre_dry_run_validate h cfg ?D W4
              = (if dry_run_validate cfg
                 then map_option (failure ''Dry-run validation failed: '')
                        (cmd_error h publish_dry_run_cmd)
                 else None, W5)"
    and x5: "executed W5 = executed W4 @ (if dry_run_validate cfg then [publish_dry_run_cmd] else [])"
    and k5: "files W5 = files W4"
    unfolding W5_def by (simp_all add: pre_dry_run_validate_real [OF real])
  have kept1: "(update_version cfg \<longrightarrow> fst upd = None) \<Longrightarrow> files W1 = kept"
    using k1 kept by simp
  have c0: "ParsePubspec h (files w) (pubspecPath cfg) = Inl err \<longrightarrow>
        fst res = failure ''Failed to parse pubspec.yaml: '' err \<and> snd res = w"
    using res by (simp add: executePrePublish_def failure_def)
  have c1: "ParsePubspec h (files w) (pubspecPath cfg) = Inr pubspec \<and>
      update_version cfg \<and> fst upd = Some err \<longrightarrow>
        fst res = failure ''Failed to update version: '' err
        \<and> executed (snd res) = executed w \<and> files (snd res) = files w"
    using res x1 k1 UpdateVersion_failed_files [of h "pubspecPath cfg" version "files w" err] upd
    by (simp add: executePrePublish_def Let_def s1)
  have c2: "ParsePubspec h (files w) (pubspecPath cfg) = Inr pubspec \<and>
      (update_version cfg \<longrightarrow> fst upd = None) \<and>
      analyze cfg \<and> cmd_error h analyze_cmd = Some err \<longrightarrow>
        fst res = failure ''Analysis failed: '' err
        \<and> executed (snd res) = executed w @ [analyze_cmd] \<and> files (snd res) = kept"
    using res x1 x2 k2 kept1
    by (simp add: executePrePublish_def Let_def s1 s2)
  have c3: "ParsePubspec h (files w) (pubspecPath cfg) = Inr pubspec \<and>
      (update_version cfg \<longrightarrow> fst upd = None) \<and>
      (analyze cfg \<longrightarrow> cmd_error h analyze_cmd = None) \<and>
      format_check cfg \<and> cmd_error h format_cmd = Some err \<longrightarrow>
        fst res = failure ''Format check failed: '' err
        \<and> executed (snd res)
            = executed w @ (if analyze cfg then [analyze_cmd] else []) @ [format_cmd]
        \<and> files (snd res) = kept"
    using res x1 x2 x3 k2 k3 kept1
    by (simp add: executePrePublish_def Let_def s1 s2 s3)
  have c4: "ParsePubspec h (files w) (pubspecPath cfg) = Inr pubspec \<and>
      (update_version cfg \<longrightarrow> fst upd = None) \<and>
      (analyze cfg \<longrightarrow> cmd_error h analyze_cmd = None) \<and>
      (format_check cfg \<longrightarrow> cmd_error h format_cmd = None) \<and>
      test cfg \<and> cmd_error h tcmd = Some err \<longrightarrow>
        fst res = failure tp err
        \<and> executed (snd res)
            = executed w @ (if analyze cfg then [analyze_cmd] else [])
                @ (if format_check cfg then [format_cmd] else []) @ [tcmd]
        \<and> files (snd res) = kept"
    using res x1 x2 x3 x4 k2 k3 k4 kept1
    by (simp add: executePrePublish_def Let_def s1 s2 s3 s4)
  have c5: "ParsePubspec h (files w) (pubspecPath cfg) = Inr pubspec \<and>
      (update_version cfg \<longrightarrow> fst upd = None) \<and>
      (analyze cfg \<longrightarrow> cmd_error h analyze_cmd = None) \<and>
      (format_check cfg \<longrightarrow> cmd_error h format_cmd = None) \<and>
      (test cfg \<longrightarrow> cmd_error h tcmd = None) \<and>
      dry_run_validate cfg \<and> cmd_error h publish_dry_run_cmd = Some err \<longrightarrow>
        fst res = failure ''Dry-run validation failed: '' err
        \<and> executed (snd res)
            = executed w @ (if analyze cfg then [analyze_cmd] else [])
                @ (if format_check cfg then [format_cmd] else [])
                @ (if test cfg then [tcmd] else []) @ [publish_dry_run_cmd]
        \<and> files (snd res) = kept"
    using res x1 x2 x3 x4 x5 k2 k3 k4 k5 kept1
    by (simp add: executePrePublish_def Let_def s1 s2 s3 s4 s5)
  from c0 c1 c2 c3 c4 c5 show ?thesis unfolding tp_def by blast
qed

theorem executePrePublish_fail_fast_witness:
  "\<not> dry_run (all_gates False)
   \<and> ParsePubspec (plain_host sample_pubspec (fail_on [''test'', ''--platform'', ''vm'', ''--concurrency'', ''4'']))
        (files world_s) (pubspecPath (all_gates False)) = Inr sample_pubspec
   \<and> fst (UpdateVersion (plain_host sample_pubspec (fail_on [''test'', ''--platform'', ''vm'', ''--concurrency'', ''4'']))
            (pubspecPath (all_gates False)) ''2.0.0'' (files world_s)) = None
   \<and> cmd_error (plain_host sample_pubspec (fail_on [''test'', ''--platform'', ''vm'', ''--concurrency'', ''4'']))
        (test_cmd False (test_config (all_gates False)))
       = Some (Errorf ''Some tests failed.: exit status 1'')
   \<and> fst (executePrePublish (plain_host sample_pubspec (fail_on [''test'', ''--platform'', ''vm'', ''--concurrency'', ''4'']))
            ''2.0.0'' (all_gates False) world_s)
       = \<lparr>Success = False, Message = ''Tests failed: Some tests failed.: exit status 1''\<rparr>
   \<and> executed (snd (executePrePublish (plain_host sample_pubspec (fail_on [''test'', ''--platform'', ''vm'', ''--concurrency'', ''4'']))
            ''2.0.0'' (all_gates False) world_s))
       = [analyze_cmd, format_cmd, dart_cmd ''dart'' [''test'', ''--platform'', ''vm'', ''--concurrency'', ''4'']]
   \<and> files (snd (executePrePublish (plain_host sample_pubspec (fail_on [''test'', ''--platform'', ''vm'', ''--concurrency'', ''4'']))
            ''2.0.0'' (all_gates False) world_s)) ''pubspec.yaml''
       = Some (''name: p\<newline>version: 2.0.0\<newline>description: '' @ replicate 90 CHR ''d''
                 @ ''\<newline>environment:\<newline>  sdk: ^3.0.0\<newline>'')
   \<and> fst (UpdateVersion (plain_host sample_pubspec all_pass) (pubspecPath (all_gates False)) ''2.0.0''
            (files world_c))
       = Some (Errorf ''version field not found in pubspec.yaml'')
   \<and> fst (executePrePublish (plain_host sample_pubspec all_pass) ''2.0.0'' (all_gates False) world_c)
       = \<lparr>Success = False,
          Message = ''Failed to update version: version field not found in pubspec.yaml''\<rparr>
   \<and> executed (snd (executePrePublish (plain_host sample_pubspec all_pass) ''2.0.0''
                      (all_gates False) world_c)) = []
   \<and> files (snd (executePrePublish (plain_host sample_pubspec all_pass) ''2.0.0''
                   (all_gates False) world_c)) = files world_c
   \<and> fst (executePrePublish (plain_host sample_pubspec all_pass) ''2.0.0'' (all_gates False) world_e)
       = \<lparr>Success = False,
          Message = ''Failed to parse pubspec.yaml: failed to read pubspec.yaml: open pubspec.yaml: no such file or directory''\<rparr>
   \<and> snd (executePrePublish (plain_host sample_pubspec all_pass) ''2.0.0'' (all_gates False) world_e)
       = world_e"
proof -
  let ?h = "plain_host sample_pubspec (fail_on [''test'', ''--platform'', ''vm'', ''--concurrency'', ''4''])"
  let ?g = "plain_host sample_pubspec all_pass"
  let ?cfg = "all_gates False"
  have nd: "\<not> dry_run ?cfg" by (simp add: all_gates_def)
  have pp: "pubspecPath ?cfg = ''pubspec.yaml''"
    by (simp add: pubspecPath_def all_gates_def)
  have g: "update_version ?cfg" "analyze ?cfg" "format_check ?cfg" "test ?cfg"
    by (simp_all add: all_gates_def)
  have w: "executed world_s = []" "executed world_c = []"
    by (simp_all add: world_s_def world_c_def)
  have a: "cmd_error ?h analyze_cmd = None" "cmd_error ?h format_cmd = None"
    by (simp_all add: cmd_error_def plain_host_def fail_on_def analyze_cmd_def format_cmd_def
        dart_cmd_def)
  have t: "cmd_error ?h (test_cmd False (test_config ?cfg))
             = Some (Errorf ''Some tests failed.: exit status 1'')"
    by (simp add: tcmd_s cmd_error_def plain_host_def fail_on_def dart_cmd_def)
  have pc: "ParsePubspec ?g (files world_c) ''pubspec.yaml'' = Inr sample_pubspec"
    by (simp add: ParsePubspec_def ReadFile_def world_c_def plain_host_def)
  have uc: "fst (UpdateVersion ?g ''pubspec.yaml'' ''2.0.0'' (files world_c))
              = Some (Errorf ''version field not found in pubspec.yaml'')"
    by code_simp
  have pe: "ParsePubspec ?g (files world_e) ''pubspec.yaml''
      = Inl (Errorf ''failed to read pubspec.yaml: open pubspec.yaml: no such file or directory'')"
    by (simp add: ParsePubspec_def ReadFile_def world_e_def)
  have 1: "fst (executePrePublish ?h ''2.0.0'' ?cfg world_s)
       = \<lparr>Success = False, Message = ''Tests failed: Some tests failed.: exit status 1''\<rparr>
    \<and> executed (snd (executePrePublish ?h ''2.0.0'' ?cfg world_s))
       = [analyze_cmd, format_cmd, dart_cmd ''dart'' [''test'', ''--platform'', ''vm'', ''--concurrency'', ''4'']]
    \<and> files (snd (executePrePublish ?h ''2.0.0'' ?cfg world_s)) ''pubspec.yaml''
       = Some (''name: p\<newline>version: 2.0.0\<newline>description: '' @ replicate 90 CHR ''d''
                 @ ''\<newline>environment:\<newline>  sdk: ^3.0.0\<newline>'')"
    using executePrePublish_fail_fast [where cfg = ?cfg and h = ?h and version = "''2.0.0''"
      and w = world_s and pubspec = sample_pubspec
      and err = "Errorf ''Some tests failed.: exit status 1''", OF nd refl refl refl refl]
      nd g w a t
    by (simp add: pp parse_s upd_s upd_s_files not_flutter_sample failure_def tcmd_s)
  have 2: "fst (executePrePublish ?g ''2.0.0'' ?cfg world_c)
       = \<lparr>Success = False,
          Message = ''Failed to update version: version field not found in pubspec.yaml''\<rparr>
    \<and> executed (snd (executePrePublish ?g ''2.0.0'' ?cfg world_c)) = []
    \<and> files (snd (executePrePublish ?g ''2.0.0'' ?cfg world_c)) = files world_c"
    using executePrePublish_fail_fast [where cfg = ?cfg and h = ?g and version = "''2.0.0''"
      and w = world_c and pubspec = sample_pubspec
      and err = "Errorf ''version field not found in pubspec.yaml''", OF nd refl refl refl refl]
      g w
    by (simp add: pp pc uc failure_def)
  have 3: "fst (executePrePublish ?g ''2.0.0'' ?cfg world_e)
       = \<lparr>Success = False,
          Message = ''Failed to parse pubspec.yaml: failed to read pubspec.yaml: open pubspec.yaml: no such file or directory''\<rparr>
    \<and> snd (executePrePublish ?g ''2.0.0'' ?cfg world_e) = world_e"
    using executePrePublish_fail_fast [where cfg = ?cfg and h = ?g and version = "''2.0.0''"
      and w = world_e and pubspec = sample_pubspec
      and err = "Errorf ''failed to read pubspec.yaml: open pubspec.yaml: no such file or directory''",
      OF nd refl refl refl refl]
    by (simp add: pp pe failure_def)
  have p: "ParsePubspec ?h (files world_s) (pubspecPath ?cfg) = Inr sample_pubspec"
    by (simp add: pp parse_s)
  have u: "fst (UpdateVersion ?h (pubspecPath ?cfg) ''2.0.0'' (files world_s)) = None"
    by (simp add: pp upd_s)
  have uc': "fst (UpdateVersion ?g (pubspecPath ?cfg) ''2.0.0'' (files world_c))
              = Some (Errorf ''version field not found in pubspec.yaml'')"
    by (simp add: pp uc)
  from nd p u t 1 2 3 uc' show ?thesis by blast
qed

subsection \<open>The post-publish hook\<close>

text \<open>
  Claim C8: once the manifest is parsed, the post-publish hook goes on with credentials
  made from the configured access token when that is non-empty, without looking at the
  credentials file; with an empty token it goes on with what \<^verbatim>\<open>LoadCredentials\<close> returns
  for the configured path (the default path when that is empty), and when the load fails
  it goes on without credentials: the hook reaches the publish step all the same, and its
  result is the one of the publish step, in which the error of the load does not occur.
\<close>

theorem executePostPublish_credentials:
  assumes "ParsePubspec h (files w) (pubspecPath cfg) = Inr pubspec"
  shows
    "(access_token cfg \<noteq> [] \<longrightarrow>
        executePostPublish h version cfg w
          = publish_with h version cfg pubspec
              (Some (CreateCredentialsFromToken (access_token cfg))) w)
   \<and> (access_token cfg = [] \<and> LoadCredentials h (files w) (credentials_path cfg) = Inr c \<longrightarrow>
        executePostPublish h version cfg w = publish_with h version cfg pubspec (Some c) w)
   \<and> (access_token cfg = [] \<and> LoadCredentials h (files w) (credentials_path cfg) = Inl err \<longrightarrow>
        executePostPublish h version cfg w = publish_with h version cfg pubspec None w)"
proof -
  have pub: "Publish h (if hosted_url cfg \<noteq> []
                        then SetHostedURL (SetCredentials (NewDartCLI ''.'') creds) (hosted_url cfg)
                        else SetCredentials (NewDartCLI ''.'') creds) (force cfg) w'
       = (cmd_error h (publish_cmd creds cfg), w'\<lparr>executed := executed w' @ [publish_cmd creds cfg]\<rparr>)"
    for creds w'
    by (simp add: Publish_def start_def publish_cmd_def SetHostedURL_def SetCredentials_def
        NewDartCLI_def)
  have body: "executePostPublish h version cfg w
      = publish_with h version cfg pubspec
          (if access_token cfg \<noteq> [] then Some (CreateCredentialsFromToken (access_token cfg))
           else (case LoadCredentials h (files w) (credentials_path cfg) of
                   Inl err \<Rightarrow> None | Inr c \<Rightarrow> Some c)) w"
    using assms unfolding executePostPublish_def publish_with_def Let_def
    by (simp add: pub Info_def failure_def split: option.splits)
  show ?thesis unfolding body by simp
qed

theorem executePostPublish_credentials_witness:
  "ParsePubspec (plain_host sample_pubspec all_pass) (files world_s) (pubspecPath (token_cfg [])) = Inr sample_pubspec
   \<and> access_token (token_cfg []) = []
   \<and> LoadCredentials (plain_host sample_pubspec all_pass) (files world_s) (credentials_path (token_cfg []))
       = Inl (Errorf ''failed to read credentials: open /home/dev/.pub-cache/credentials.json: no such file or directory'')
   \<and> fst (executePostPublish (plain_host sample_pubspec all_pass) ''2.0.0'' (token_cfg []) world_s)
       = \<lparr>Success = True, Message = ''Published p@2.0.0 to pub.dev''\<rparr>
   \<and> executed (snd (executePostPublish (plain_host sample_pubspec all_pass) ''2.0.0'' (token_cfg []) world_s))
       = [\<lparr>cmd_name = ''dart'', cmd_args = [''pub'', ''publish'', ''--force''], cmd_dir = ''.'',
           cmd_env = []\<rparr>]
   \<and> access_token (token_cfg ''secret'') \<noteq> []
   \<and> executed (snd (executePostPublish (plain_host sample_pubspec all_pass) ''2.0.0''
                      (token_cfg ''secret'') world_s))
       = [\<lparr>cmd_name = ''dart'', cmd_args = [''pub'', ''publish'', ''--force''], cmd_dir = ''.'',
           cmd_env = [''PUB_TOKEN=secret'']\<rparr>]
   \<and> LoadCredentials creds_host (files world_k) (credentials_path (token_cfg [])) = Inr sample_creds
   \<and> executed (snd (executePostPublish creds_host ''2.0.0'' (token_cfg []) world_k))
       = [\<lparr>cmd_name = ''dart'', cmd_args = [''pub'', ''publish'', ''--force''], cmd_dir = ''.'',
           cmd_env = [''PUB_TOKEN=token'']\<rparr>]"
proof -
  let ?h = "plain_host sample_pubspec all_pass"
  have pp: "pubspecPath (token_cfg tok) = ''pubspec.yaml''" for tok
    by (simp add: pubspecPath_def token_cfg_def all_gates_def)
  have p: "ParsePubspec ?h (files world_s) (pubspecPath (token_cfg tok)) = Inr sample_pubspec" for tok
    by (simp add: pp parse_s)
  have pk: "ParsePubspec creds_host (files world_k) (pubspecPath (token_cfg [])) = Inr sample_pubspec"
    by (simp add: pp ParsePubspec_def ReadFile_def world_k_def creds_host_def plain_host_def)
  have l: "LoadCredentials ?h (files world_s) (credentials_path (token_cfg []))
       = Inl (Errorf ''failed to read credentials: open /home/dev/.pub-cache/credentials.json: no such file or directory'')"
    by (simp add: LoadCredentials_def token_cfg_def all_gates_def plain_host_def ReadFile_def
        world_s_def)
  have lk: "LoadCredentials creds_host (files world_k) (credentials_path (token_cfg [])) = Inr sample_creds"
    by (simp add: LoadCredentials_def token_cfg_def all_gates_def creds_host_def plain_host_def
        ReadFile_def world_k_def)
  have c: "access_token (token_cfg tok) = tok" "\<not> dry_run (token_cfg tok)" "force (token_cfg tok)"
    "hosted_url (token_cfg tok) = []" for tok
    by (simp_all add: token_cfg_def all_gates_def)
  have w: "executed world_s = []" "executed world_k = []"
    by (simp_all add: world_s_def world_k_def)
  have n: "Name sample_pubspec = ''p''" by (simp add: sample_pubspec_def)
  have ek: "cmd_error creds_host cmd = None" for cmd
    by (simp add: cmd_error_def creds_host_def plain_host_def all_pass_def)
  have 1: "fst (executePostPublish ?h ''2.0.0'' (token_cfg []) world_s)
       = \<lparr>Success = True, Message = ''Published p@2.0.0 to pub.dev''\<rparr>
    \<and> executed (snd (executePostPublish ?h ''2.0.0'' (token_cfg []) world_s))
       = [\<lparr>cmd_name = ''dart'', cmd_args = [''pub'', ''publish'', ''--force''], cmd_dir = ''.'',
           cmd_env = []\<rparr>]"
    using executePostPublish_credentials [OF p, where version = "''2.0.0''" and tok1 = "[]"
      and err = "Errorf ''failed to read credentials: open /home/dev/.pub-cache/credentials.json: no such file or directory''"]
      l
    by (simp add: c w n publish_with_def publish_cmd_def cmd_error_all_pass)
  have 2: "executed (snd (executePostPublish ?h ''2.0.0'' (token_cfg ''secret'') world_s))
       = [\<lparr>cmd_name = ''dart'', cmd_args = [''pub'', ''publish'', ''--force''], cmd_dir = ''.'',
           cmd_env = [''PUB_TOKEN=secret'']\<rparr>]"
    using executePostPublish_credentials [OF p, where version = "''2.0.0''" and tok1 = "''secret''"]
    by (simp add: c w n publish_with_def publish_cmd_def cmd_error_all_pass
        CreateCredentialsFromToken_def)
  have 3: "executed (snd (executePostPublish creds_host ''2.0.0'' (token_cfg []) world_k))
       = [\<lparr>cmd_name = ''dart'', cmd_args = [''pub'', ''publish'', ''--force''], cmd_dir = ''.'',
           cmd_env = [''PUB_TOKEN=token'']\<rparr>]"
    using executePostPublish_credentials [OF pk, where version = "''2.0.0''" and c = sample_creds] lk
    by (simp add: c w n publish_with_def publish_cmd_def ek sample_creds_def)
  have s: "access_token (token_cfg ''secret'') \<noteq> []" "access_token (token_cfg []) = []"
    by (simp_all add: c)
  from p [of "[]"] l lk s 1 2 3 show ?thesis by blast
qed

end
